theory Spec2Isabelle
  imports Complex_Main "HOL-Library.Sublist" "HOL-Library.Stream"
begin

section \<open>Python values: errors, strings, slices\<close>

text \<open>
  The instance-construction pipeline of \<^verbatim>\<open>gpt2_finetune/data_utils.py\<close> and the
  post-processing of \<^verbatim>\<open>gpt2_finetune/inference_utils.py\<close>, as HOL functions.
  Every exception of the Python code is a value: a function that can raise returns
  \<open>error + 'a\<close>, with \<open>Inl\<close> carrying the exception. NumPy arrays of token ids are
  lists of integers; characters are ASCII.
\<close>

datatype error =
  AssertionError | ValueError | ZeroDivisionError | IndexError | KeyError
  | AttributeError | TypeError | OverflowError

definition rbind :: "'e + 'a \<Rightarrow> ('a \<Rightarrow> 'e + 'b) \<Rightarrow> 'e + 'b" where
  "rbind m f = (case m of Inl e \<Rightarrow> Inl e | Inr v \<Rightarrow> f v)"

fun map_result :: "('a \<Rightarrow> error + 'b) \<Rightarrow> 'a list \<Rightarrow> error + 'b list" where
  "map_result f [] = Inr []"
| "map_result f (x # xs) =
     rbind (f x) (\<lambda>y. rbind (map_result f xs) (\<lambda>ys. Inr (y # ys)))"

definition list_get :: "'a list \<Rightarrow> nat \<Rightarrow> error + 'a" where
  "list_get xs i = (if i < length xs then Inr (xs ! i) else Inl IndexError)"

definition attr :: "'a option \<Rightarrow> error + 'a" where
  "attr v = (case v of None \<Rightarrow> Inl AttributeError | Some x \<Rightarrow> Inr x)"

definition dict_get :: "'a option \<Rightarrow> error + 'a" where
  "dict_get v = (case v of None \<Rightarrow> Inl KeyError | Some x \<Rightarrow> Inr x)"

text \<open>\<^verbatim>\<open>s.startswith(p)\<close>, \<^verbatim>\<open>s.endswith(p)\<close> and \<^verbatim>\<open>p in s\<close>.\<close>

definition startswith :: "string \<Rightarrow> string \<Rightarrow> bool" where
  "startswith s p = prefix p s"

definition endswith :: "string \<Rightarrow> string \<Rightarrow> bool" where
  "endswith s p = suffix p s"

fun str_in :: "string \<Rightarrow> string \<Rightarrow> bool" where
  "str_in p [] = (p = [])"
| "str_in p (c # cs) = (prefix p (c # cs) \<or> str_in p cs)"

text \<open>\<^verbatim>\<open>s.split(sep)\<close> for a one-character separator: never empty, empty fields kept.\<close>

fun split_on :: "char \<Rightarrow> string \<Rightarrow> string list" where
  "split_on sep [] = [[]]"
| "split_on sep (c # cs) =
     (if c = sep then [] # split_on sep cs
      else (case split_on sep cs of [] \<Rightarrow> [[c]] | f # fs \<Rightarrow> (c # f) # fs))"

text \<open>\<^verbatim>\<open>s.split()\<close>: fields between runs of whitespace, no empty field.\<close>

definition is_space :: "char \<Rightarrow> bool" where
  "is_space c = (of_char c \<in> {9, 10, 11, 12, 13, 28, 29, 30, 31, 32 :: nat})"

fun split_ws_from :: "string \<Rightarrow> string \<Rightarrow> string list" where
  "split_ws_from cur [] = (if cur = [] then [] else [cur])"
| "split_ws_from cur (c # cs) =
     (if is_space c then (if cur = [] then split_ws_from [] cs else cur # split_ws_from [] cs)
      else split_ws_from (cur @ [c]) cs)"

definition split_ws :: "string \<Rightarrow> string list" where
  "split_ws s = split_ws_from [] s"

text \<open>
  \<^verbatim>\<open>int(s)\<close> on a string: surrounding whitespace is dropped, one sign is allowed, the
  digits may be grouped by single underscores; anything else is a \<open>ValueError\<close>.
\<close>

definition is_digit :: "char \<Rightarrow> bool" where
  "is_digit c = (48 \<le> (of_char c :: nat) \<and> (of_char c :: nat) \<le> 57)"

fun digits_value :: "nat \<Rightarrow> bool \<Rightarrow> string \<Rightarrow> nat option" where
  "digits_value acc prev [] = (if prev then Some acc else None)"
| "digits_value acc prev (c # cs) =
     (if is_digit c then digits_value (10 * acc + (of_char c - 48)) True cs
      else if c = CHR ''_'' \<and> prev then digits_value acc False cs
      else None)"

definition strip :: "string \<Rightarrow> string" where
  "strip s = rev (dropWhile is_space (rev (dropWhile is_space s)))"

definition py_int :: "string \<Rightarrow> error + int" where
  "py_int s =
     (let t = strip s;
          neg = (t \<noteq> [] \<and> hd t = CHR ''-'');
          ds = (if t \<noteq> [] \<and> (hd t = CHR ''-'' \<or> hd t = CHR ''+'') then tl t else t)
      in case digits_value 0 False ds of
           None \<Rightarrow> Inl ValueError
         | Some n \<Rightarrow> Inr (if neg then - int n else int n))"

text \<open>\<^verbatim>\<open>xs[:k]\<close>: a negative bound counts from the end.\<close>

definition py_slice_to :: "int \<Rightarrow> 'a list \<Rightarrow> 'a list" where
  "py_slice_to k xs = (if 0 \<le> k then take (nat k) xs else take (length xs - nat (- k)) xs)"

section \<open>NumPy arrays of token ids\<close>

text \<open>
  \<^verbatim>\<open>np.array(xs, dtype=np.int32)\<close> on Python integers refuses a value outside the
  32-bit range; \<^verbatim>\<open>astype(np.int32)\<close> on an integer array wraps it.
\<close>

definition np_array_int32 :: "int list \<Rightarrow> error + int list" where
  "np_array_int32 xs =
     (if list_all (\<lambda>x. - (2 ^ 31) \<le> x \<and> x < 2 ^ 31) xs then Inr xs else Inl OverflowError)"

definition astype_int32 :: "int \<Rightarrow> int" where
  "astype_int32 x = (x + 2 ^ 31) mod 2 ^ 32 - 2 ^ 31"

text \<open>
  \<^verbatim>\<open>np.pad(data, (before, after), constant_values=v)\<close>: a negative width is a
  \<open>ValueError\<close>.
\<close>

definition np_pad :: "int list \<Rightarrow> int \<Rightarrow> int \<Rightarrow> int \<Rightarrow> error + int list" where
  "np_pad data before after v =
     (if before < 0 \<or> after < 0 then Inl ValueError
      else Inr (replicate (nat before) v @ data @ replicate (nat after) v))"

definition left_padding :: "int list \<Rightarrow> int \<Rightarrow> nat \<Rightarrow> error + int list" where
  "left_padding data pad_token total_length =
     (let tokens_to_pad = int total_length - int (length data)
      in np_pad data tokens_to_pad 0 pad_token)"

definition right_padding :: "int list \<Rightarrow> int \<Rightarrow> nat \<Rightarrow> error + int list" where
  "right_padding data pad_token total_length =
     (let tokens_to_pad = int total_length - int (length data)
      in np_pad data 0 tokens_to_pad pad_token)"

section \<open>Run arguments, configuration, tokenizer\<close>

text \<open>
  The argument namespace and the dataset configuration dictionary. The configuration
  table itself is not part of the sources at hand: its three lengths are natural
  numbers here, and the two keys that \<^verbatim>\<open>update_config\<close> adds are absent (\<open>None\<close>)
  until it has run. The tokenizer is an external collaborator, given by its special
  token ids and its functions.
\<close>

record run_args =
  context_input_type :: string
  global_dense_feature_list :: string
  content_aggregation :: int
  upper_length :: string

record dataset_config =
  max_prefix_length :: nat
  max_suffix_length :: nat
  max_dense_length :: nat
  global_dense_length :: "nat option"
  roberta_dense_length :: "nat option"

record tokenizer =
  pad_token_id :: int
  bos_token_id :: int
  eos_token_id :: int
  additional_special_tokens_ids :: "int list"
  tokenize :: "string \<Rightarrow> string list"
  convert_token_to_id :: "string \<Rightarrow> int"
  decode :: "int list \<Rightarrow> string"

definition convert_tokens_to_ids :: "tokenizer \<Rightarrow> string list \<Rightarrow> int list" where
  "convert_tokens_to_ids tok ts = map (convert_token_to_id tok) ts"

definition MAX_ROBERTA_LENGTH :: nat where
  "MAX_ROBERTA_LENGTH = 502"

definition no_srl_input :: "run_args \<Rightarrow> bool" where
  "no_srl_input a = endswith (context_input_type a) ''_no_srl_input''"

section \<open>The configuration updater\<close>

definition derived_global_dense_length :: "run_args \<Rightarrow> nat" where
  "derived_global_dense_length a =
     (if global_dense_feature_list a \<noteq> ''none''
      then length (split_on CHR '','' (global_dense_feature_list a))
      else 0)"

definition derived_roberta_dense_length :: "run_args \<Rightarrow> error + nat" where
  "derived_roberta_dense_length a =
     (if content_aggregation a > int MAX_ROBERTA_LENGTH then Inr 0
      else if content_aggregation a = 0 then Inl ZeroDivisionError
      else Inr (length (filter (\<lambda>i. int i mod content_aggregation a = 0)
                  [0 ..< MAX_ROBERTA_LENGTH - 1])))"

definition update_config :: "run_args \<Rightarrow> dataset_config \<Rightarrow> error + dataset_config" where
  "update_config a c =
     (let c1 = (if no_srl_input a then c\<lparr>max_prefix_length := 0\<rparr> else c);
          gdl = derived_global_dense_length a
      in rbind (derived_roberta_dense_length a)
           (\<lambda>rdl. if \<not> gdl \<le> max_dense_length c1 then Inl AssertionError
                  else Inr (c1\<lparr>global_dense_length := Some gdl,
                                roberta_dense_length := Some rdl\<rparr>)))"

section \<open>Instances\<close>

text \<open>
  An \<^verbatim>\<open>Instance\<close> object. The arrays that the build steps create are attributes
  that do not exist before their step has run: \<open>None\<close> until then, and reading one
  is an \<open>AttributeError\<close>. The same holds for \<^verbatim>\<open>gdv\<close>, the dense vectors that
  the generator attaches to an instance; float arrays are lists of reals.
\<close>

record Instance =
  args :: run_args
  config :: dataset_config
  truncated :: bool
  sent1_tokens :: "int list"
  sent1_tokens_tags :: "string list option"
  sent2_tokens :: "int list"
  init_context_size :: nat
  sent_prefix :: "int list option"
  sent_suffix :: "int list option"
  sentence :: "int list option"
  label_suffix :: "int list option"
  label :: "int list option"
  segment :: "int list option"
  gdv :: "real list list option"

text \<open>
  The derived class \<^verbatim>\<open>HPInstance\<close> extends the record, and is built from a
  dictionary of its own. Its secondary encoding arrives as a whitespace-separated
  string of integers or as a one-dimensional integer tensor, and is an int32 array once
  \<^verbatim>\<open>preprocess_roberta\<close> has run.
\<close>

datatype roberta_input = RobertaStr string | RobertaTensor "int list" | RobertaArray "int list"

record HPInstance = Instance +
  original_sentence :: "int list"
  roberta_sentence :: roberta_input
  author_tag_str :: string
  author_tag_ids :: "string list"
  author_target :: int
  original_author_target :: int
  roberta_author_target :: int

record hp_dict =
  dict_sentence :: "int list"
  dict_roberta_sentence :: roberta_input
  dict_author_tag_str :: string
  dict_author_tag_ids :: "string list"
  dict_author_target :: int
  dict_original_target :: int
  dict_roberta_author_target :: "int option"

definition Instance_init ::
  "run_args \<Rightarrow> dataset_config \<Rightarrow> int list \<Rightarrow> int list \<Rightarrow> error + Instance" where
  "Instance_init a c s1 s2 =
     rbind (np_array_int32 s1) (\<lambda>t1.
     rbind (np_array_int32 s2) (\<lambda>t2.
       Inr \<lparr>args = a, config = c, truncated = False,
            sent1_tokens = t1, sent1_tokens_tags = None, sent2_tokens = t2,
            init_context_size = max_prefix_length c + 1,
            sent_prefix = None, sent_suffix = None, sentence = None,
            label_suffix = None, label = None, segment = None, gdv = None\<rparr>))"

definition truncate :: "'z Instance_scheme \<Rightarrow> 'z Instance_scheme" where
  "truncate inst =
     (let max_prefix = max_prefix_length (config inst);
          max_suffix = max_suffix_length (config inst);
          inst1 = (if length (sent1_tokens inst) > max_prefix
                   then inst\<lparr>truncated := True,
                             sent1_tokens := take max_prefix (sent1_tokens inst)\<rparr>
                   else inst)
      in if length (sent2_tokens inst1) > max_suffix
         then inst1\<lparr>truncated := True,
                    sent2_tokens := take max_suffix (sent2_tokens inst1)\<rparr>
         else inst1)"

text \<open>
  The shared random generator is a stream of draws from \<open>[0, 1)\<close>;
  \<^verbatim>\<open>random.random()\<close> takes its head.
\<close>

definition swap_tokens :: "'z Instance_scheme \<Rightarrow> 'z Instance_scheme" where
  "swap_tokens inst =
     inst\<lparr>sent1_tokens := sent2_tokens inst, sent2_tokens := sent1_tokens inst\<rparr>"

definition shuffle_prefix_suffix ::
  "real stream \<Rightarrow> 'z Instance_scheme \<Rightarrow> 'z Instance_scheme \<times> real stream" where
  "shuffle_prefix_suffix rnd inst =
     (if str_in ''_shuffle_'' (context_input_type (args inst)) then
        (if shd rnd \<le> 0.5 then (swap_tokens inst, stl rnd) else (inst, stl rnd))
      else if str_in ''_reverse_'' (context_input_type (args inst)) then
        (swap_tokens inst, rnd)
      else (inst, rnd))"

definition build_sentence ::
  "tokenizer \<Rightarrow> 'z Instance_scheme \<Rightarrow> error + 'z Instance_scheme" where
  "build_sentence tok inst =
     rbind (if no_srl_input (args inst) then Inr []
            else left_padding (sent1_tokens inst) (pad_token_id tok)
                   (max_prefix_length (config inst))) (\<lambda>p.
     rbind (right_padding (sent2_tokens inst @ [eos_token_id tok]) (pad_token_id tok)
              (max_suffix_length (config inst) + 1)) (\<lambda>s.
       Inr (inst\<lparr>sent_prefix := Some p, sent_suffix := Some s,
                 sentence := Some (p @ [bos_token_id tok] @ s)\<rparr>)))"

definition dense_length :: "dataset_config \<Rightarrow> error + nat" where
  "dense_length c =
     rbind (dict_get (global_dense_length c)) (\<lambda>g.
     rbind (dict_get (roberta_dense_length c)) (\<lambda>r. Inr (g + r)))"

definition build_label ::
  "tokenizer \<Rightarrow> 'z Instance_scheme \<Rightarrow> error + 'z Instance_scheme" where
  "build_label tok inst =
     rbind (dense_length (config inst)) (\<lambda>d.
     rbind (right_padding (sent2_tokens inst @ [eos_token_id tok]) (- 1)
              (max_suffix_length (config inst) + 1)) (\<lambda>ls.
     rbind (attr (sent_prefix inst)) (\<lambda>p.
       Inr (inst\<lparr>label_suffix := Some ls,
                 label := Some (replicate d (- 1) @ replicate (length p) (- 1)
                                @ [- 1] @ ls)\<rparr>))))"

text \<open>
  A comprehension \<^verbatim>\<open>[ids[k] for _ in xs]\<close> reads \<^verbatim>\<open>ids[k]\<close> once per element, so
  a missing id is an \<open>IndexError\<close> only when \<open>xs\<close> is not empty.
\<close>

definition repeat_id :: "int list \<Rightarrow> nat \<Rightarrow> nat \<Rightarrow> error + int list" where
  "repeat_id ids k n =
     (if n = 0 then Inr [] else rbind (list_get ids k) (\<lambda>t. Inr (replicate n t)))"

definition build_segment ::
  "tokenizer \<Rightarrow> 'z Instance_scheme \<Rightarrow> error + 'z Instance_scheme" where
  "build_segment tok inst =
     (let ids = additional_special_tokens_ids tok in
      rbind (dense_length (config inst)) (\<lambda>d.
      rbind (case sent1_tokens_tags inst of
               Some tags \<Rightarrow>
                 rbind (left_padding (convert_tokens_to_ids tok tags) (pad_token_id tok)
                          (max_prefix_length (config inst))) (\<lambda>ps.
                 rbind (list_get ids 1) (\<lambda>t. Inr (ps, t)))
             | None \<Rightarrow>
                 rbind (attr (sent_prefix inst)) (\<lambda>p.
                 rbind (repeat_id ids 1 (length p)) (\<lambda>ps.
                 rbind (list_get ids 2) (\<lambda>t. Inr (ps, t))))) (\<lambda>(prefix_segment, tag).
      rbind (repeat_id ids 0 d) (\<lambda>ds.
      rbind (attr (sent_suffix inst)) (\<lambda>s.
        Inr (inst\<lparr>segment := Some (ds @ prefix_segment @ [tag]
                                     @ replicate (length s) tag)\<rparr>))))))"

definition check_constraints :: "'z Instance_scheme \<Rightarrow> error + 'z Instance_scheme" where
  "check_constraints inst =
     rbind (dense_length (config inst)) (\<lambda>d.
     rbind (attr (sentence inst)) (\<lambda>s.
     rbind (attr (label inst)) (\<lambda>l.
       if int (length s) \<noteq> int (length l) - int d then Inl AssertionError
       else rbind (attr (segment inst)) (\<lambda>g.
         if int (length s) \<noteq> int (length g) - int d then Inl AssertionError
         else Inr inst))))"

definition preprocess ::
  "tokenizer \<Rightarrow> real stream \<Rightarrow> 'z Instance_scheme
     \<Rightarrow> error + ('z Instance_scheme \<times> real stream)" where
  "preprocess tok rnd inst =
     (let (inst2, rnd') = shuffle_prefix_suffix rnd (truncate inst) in
      rbind (build_sentence tok inst2) (\<lambda>inst3.
      rbind (build_label tok inst3) (\<lambda>inst4.
      rbind (build_segment tok inst4) (\<lambda>inst5.
      rbind (check_constraints inst5) (\<lambda>inst6. Inr (inst6, rnd'))))))"

section \<open>The derived instance\<close>

text \<open>
  \<^verbatim>\<open>HPInstance.preprocess_roberta\<close>, \<^verbatim>\<open>decide_sent1_tokens\<close> and the constructor.
  A tensor has a \<^verbatim>\<open>split\<close> method that needs an argument, an array has none.
\<close>

definition roberta_ids :: "roberta_input \<Rightarrow> error + int list" where
  "roberta_ids rs =
     (case rs of
        RobertaStr s \<Rightarrow> rbind (map_result py_int (split_ws s)) np_array_int32
      | RobertaTensor t \<Rightarrow> Inr (map astype_int32 t)
      | RobertaArray _ \<Rightarrow> Inl AttributeError)"

definition preprocess_roberta :: "roberta_input \<Rightarrow> error + int list" where
  "preprocess_roberta rs =
     rbind (roberta_ids rs) (\<lambda>ids.
     rbind (if length ids < MAX_ROBERTA_LENGTH then right_padding ids 1 MAX_ROBERTA_LENGTH
            else Inr (take MAX_ROBERTA_LENGTH ids)) (\<lambda>out.
       if length out \<noteq> MAX_ROBERTA_LENGTH then Inl AssertionError else Inr out))"

definition decide_sent1_tokens ::
  "run_args \<Rightarrow> roberta_input \<Rightarrow> string \<Rightarrow> string list
     \<Rightarrow> error + (int list \<times> string list option)" where
  "decide_sent1_tokens a rs tag_str tag_ids =
     (if endswith (context_input_type a) ''_no_srl_input'' then Inr ([], None)
      else if endswith (context_input_type a) ''_roberta_input'' then
        (case rs of
           RobertaStr s \<Rightarrow>
             rbind (map_result py_int (split_ws s)) (\<lambda>xs.
             rbind (np_array_int32 xs) (\<lambda>t1. Inr (t1, None)))
         | RobertaTensor _ \<Rightarrow> Inl TypeError
         | RobertaArray _ \<Rightarrow> Inl AttributeError)
      else
        rbind (map_result (\<lambda>ch. py_int [ch]) tag_str) (\<lambda>xs.
        rbind (np_array_int32 xs) (\<lambda>t1. Inr (t1, Some tag_ids))))"

definition HPInstance_init ::
  "run_args \<Rightarrow> dataset_config \<Rightarrow> hp_dict \<Rightarrow> error + HPInstance" where
  "HPInstance_init a c d =
     rbind (decide_sent1_tokens a (dict_roberta_sentence d) (dict_author_tag_str d)
              (dict_author_tag_ids d)) (\<lambda>(t1, tags).
     rbind (np_array_int32 (dict_sentence d)) (\<lambda>t2.
     rbind (preprocess_roberta (dict_roberta_sentence d)) (\<lambda>rs.
       Inr \<lparr>args = a, config = c, truncated = False,
            sent1_tokens = t1, sent1_tokens_tags = tags, sent2_tokens = t2,
            init_context_size = max_prefix_length c + 1,
            sent_prefix = None, sent_suffix = None, sentence = None,
            label_suffix = None, label = None, segment = None, gdv = None,
            original_sentence = dict_sentence d,
            roberta_sentence = RobertaArray rs,
            author_tag_str = dict_author_tag_str d,
            author_tag_ids = dict_author_tag_ids d,
            author_target = dict_author_target d,
            original_author_target = dict_original_target d,
            roberta_author_target =
              (case dict_roberta_author_target d of
                 None \<Rightarrow> dict_author_target d | Some t \<Rightarrow> t)\<rparr>)))"

section \<open>The generator\<close>

text \<open>
  \<^verbatim>\<open>GPT2Generator.generate_batch\<close>. A dense-feature selector is an author id, the
  key of the precomputed tables, or a dictionary of bucket indices. The attribute
  \<^verbatim>\<open>global_dense_features\<close> of the generator is a list of named tables; the
  constructor sets it only for a feature list other than \<^verbatim>\<open>none\<close> in a mode that does
  not end with \<^verbatim>\<open>_paraphrase\<close>, so it may be absent (\<open>None\<close>).
\<close>

datatype selector = Author int | Buckets "string \<rightharpoonup> int"

type_synonym dense_table = "string \<times> (int \<rightharpoonup> real list)"

text \<open>
  \<^verbatim>\<open>x[1][gdf]\<close>: a dictionary cannot be a key. \<^verbatim>\<open>gdf[name]\<close>: an integer has no
  fields.
\<close>

definition table_lookup :: "selector \<Rightarrow> dense_table \<Rightarrow> error + real list" where
  "table_lookup gdf x =
     (case gdf of
        Buckets _ \<Rightarrow> Inl TypeError
      | Author k \<Rightarrow> (case snd x k of None \<Rightarrow> Inl KeyError | Some v \<Rightarrow> Inr v))"

definition selector_field :: "selector \<Rightarrow> string \<Rightarrow> error + int" where
  "selector_field gdf name =
     (case gdf of
        Author _ \<Rightarrow> Inl TypeError
      | Buckets d \<Rightarrow> (case d name of None \<Rightarrow> Inl KeyError | Some v \<Rightarrow> Inr v))"

text \<open>\<^verbatim>\<open>row[idx] = 1\<close> on an array: a negative index counts from the end.\<close>

definition set_one :: "real list \<Rightarrow> int \<Rightarrow> error + real list" where
  "set_one row idx =
     (let n = int (length row) in
      if - n \<le> idx \<and> idx < n
      then Inr (row[nat (if idx < 0 then idx + n else idx) := 1])
      else Inl IndexError)"

text \<open>
  An array built from a list of rows, or a tensor from a list of arrays, needs its parts
  to have one shape; otherwise it is a \<open>ValueError\<close>.
\<close>

definition stack_rows :: "'a list list \<Rightarrow> error + 'a list list" where
  "stack_rows rows =
     (if list_all (\<lambda>r. length r = length (hd rows)) rows then Inr rows else Inl ValueError)"

definition stack_arrays :: "'a list list list \<Rightarrow> error + 'a list list list" where
  "stack_arrays arrays =
     (if list_all (\<lambda>g. map length g = map length (hd arrays)) arrays then Inr arrays
      else Inl ValueError)"

definition dense_vectors ::
  "run_args \<Rightarrow> dense_table list option \<Rightarrow> selector option \<Rightarrow> error + real list list" where
  "dense_vectors a global_dense_features gdf =
     (case gdf of
        None \<Rightarrow> Inr [replicate 768 0]
      | Some g \<Rightarrow>
          if global_dense_feature_list a \<noteq> ''none'' then
            rbind (attr global_dense_features) (\<lambda>tables.
              if tables \<noteq> [] then rbind (map_result (table_lookup g) tables) stack_rows
              else
                rbind (selector_field g ''f1_bucket'') (\<lambda>f1.
                rbind (set_one (replicate 20 0) f1) (\<lambda>row0.
                rbind (selector_field g ''ed_bucket'') (\<lambda>ed.
                rbind (set_one (replicate 20 0) (ed + 10)) (\<lambda>row1.
                  Inr [row0, row1])))))
          else Inr [replicate 768 0])"

text \<open>
  The generation engine is an external collaborator: a function from the packed
  sentences, segments and dense vectors, the context size and the eos id to the output
  rows. \<^verbatim>\<open>zip\<close> cuts the batch to the shorter of contexts and selectors.
\<close>

type_synonym engine =
  "int list list \<Rightarrow> int list list \<Rightarrow> real list list list \<Rightarrow> nat \<Rightarrow> int \<Rightarrow> int list list"

definition encode :: "tokenizer \<Rightarrow> string \<Rightarrow> int list" where
  "encode tok context = convert_tokens_to_ids tok (tokenize tok context)"

fun build_instances ::
  "run_args \<Rightarrow> dataset_config \<Rightarrow> tokenizer \<Rightarrow> dense_table list option \<Rightarrow> real stream
     \<Rightarrow> (string \<times> selector option) list \<Rightarrow> error + (Instance list \<times> real stream)" where
  "build_instances a c tok tables rnd [] = Inr ([], rnd)"
| "build_instances a c tok tables rnd ((context, gdf) # pairs) =
     (let context_ids = encode tok context in
      rbind (Instance_init a c context_ids context_ids) (\<lambda>inst.
      rbind (preprocess tok rnd inst) (\<lambda>(inst', rnd').
      rbind (dense_vectors a tables gdf) (\<lambda>global_dense_vectors.
      rbind (build_instances a c tok tables rnd' pairs) (\<lambda>(insts, rnd'').
        Inr (inst'\<lparr>gdv := Some global_dense_vectors\<rparr> # insts, rnd''))))))"

definition cut_at_eos :: "int \<Rightarrow> int list \<Rightarrow> int list" where
  "cut_at_eos eos xs = (if eos \<in> set xs then takeWhile (\<lambda>t. t \<noteq> eos) xs else xs)"

definition postprocess_row ::
  "run_args \<Rightarrow> tokenizer \<Rightarrow> Instance \<Rightarrow> int list \<Rightarrow> error + int list" where
  "postprocess_row a tok inst row =
     (let curr_out = cut_at_eos (eos_token_id tok) (drop (init_context_size inst) row) in
      if startswith (upper_length a) ''same'' then
        rbind (py_int (last (split_on CHR ''_'' (upper_length a)))) (\<lambda>extra.
          Inr (py_slice_to (int (length (sent1_tokens inst)) + extra) curr_out))
      else Inr curr_out)"

text \<open>
  The loop over the output rows reads \<^verbatim>\<open>instances[out_num]\<close>: a row beyond the
  instances is an \<open>IndexError\<close>.
\<close>

fun postprocess_rows ::
  "run_args \<Rightarrow> tokenizer \<Rightarrow> Instance list \<Rightarrow> int list list \<Rightarrow> error + int list list" where
  "postprocess_rows a tok insts [] = Inr []"
| "postprocess_rows a tok [] (row # rows) = Inl IndexError"
| "postprocess_rows a tok (inst # insts) (row # rows) =
     rbind (postprocess_row a tok inst row) (\<lambda>out.
     rbind (postprocess_rows a tok insts rows) (\<lambda>outs. Inr (out # outs)))"

definition zip_selectors ::
  "string list \<Rightarrow> selector option list option \<Rightarrow> (string \<times> selector option) list" where
  "zip_selectors contexts global_dense_features =
     zip contexts (case global_dense_features of
                     None \<Rightarrow> map (\<lambda>_. None) contexts | Some gdfs \<Rightarrow> gdfs)"

definition generate_batch_ids ::
  "run_args \<Rightarrow> dataset_config \<Rightarrow> tokenizer \<Rightarrow> dense_table list option \<Rightarrow> engine
     \<Rightarrow> real stream \<Rightarrow> string list \<Rightarrow> selector option list option
     \<Rightarrow> error + (int list list \<times> real stream)" where
  "generate_batch_ids a c tok tables generate rnd contexts global_dense_features =
     rbind (build_instances a c tok tables rnd
              (zip_selectors contexts global_dense_features)) (\<lambda>(instances, rnd').
     rbind (rbind (map_result (\<lambda>inst. attr (sentence inst)) instances) stack_rows)
       (\<lambda>sentences.
     rbind (rbind (map_result (\<lambda>inst. attr (segment inst)) instances) stack_rows)
       (\<lambda>segments.
     rbind (rbind (map_result (\<lambda>inst. attr (gdv inst)) instances) stack_arrays)
       (\<lambda>vectors.
     rbind (list_get instances 0) (\<lambda>first.
       (let output = generate sentences segments vectors
                       (init_context_size first) (eos_token_id tok)
        in rbind (postprocess_rows a tok instances output) (\<lambda>outs.
             Inr (outs, rnd'))))))))"

definition generate_batch ::
  "run_args \<Rightarrow> dataset_config \<Rightarrow> tokenizer \<Rightarrow> dense_table list option \<Rightarrow> engine
     \<Rightarrow> real stream \<Rightarrow> string list \<Rightarrow> selector option list option
     \<Rightarrow> error + (string list \<times> real stream)" where
  "generate_batch a c tok tables generate rnd contexts global_dense_features =
     rbind (generate_batch_ids a c tok tables generate rnd contexts global_dense_features)
       (\<lambda>(outs, rnd'). Inr (map (decode tok) outs, rnd'))"

section \<open>Preconditions of the pipeline\<close>

text \<open>
  Tags belong to the tag-input mode, which builds a prefix: an instance carries tags
  only when its mode is not the no-SRL one, or when the prefix has length 0 anyway (as
  \<^verbatim>\<open>update_config\<close> makes it in no-SRL mode).
\<close>

definition tags_fit_mode :: "'z Instance_scheme \<Rightarrow> bool" where
  "tags_fit_mode inst \<longleftrightarrow>
     sent1_tokens_tags inst = None \<or> \<not> no_srl_input (args inst)
     \<or> max_prefix_length (config inst) = 0"

text \<open>
  What the pipeline needs in order to complete: the two dense lengths in the
  configuration, three additional special tokens, a tag sequence no longer than
  \<open>max_prefix_length\<close>, and, in a mode that may swap prefix and suffix, truncated
  sequences that fit the other side's limit.
\<close>

definition pipeline_ready :: "tokenizer \<Rightarrow> 'z Instance_scheme \<Rightarrow> bool" where
  "pipeline_ready tok inst \<longleftrightarrow>
     global_dense_length (config inst) \<noteq> None \<and> roberta_dense_length (config inst) \<noteq> None
     \<and> 3 \<le> length (additional_special_tokens_ids tok)
     \<and> (case sent1_tokens_tags inst of
           None \<Rightarrow> True
         | Some tags \<Rightarrow> length tags \<le> max_prefix_length (config inst))
     \<and> (str_in ''_shuffle_'' (context_input_type (args inst))
          \<or> str_in ''_reverse_'' (context_input_type (args inst)) \<longrightarrow>
         (no_srl_input (args inst)
            \<or> min (length (sent2_tokens inst)) (max_suffix_length (config inst))
                 \<le> max_prefix_length (config inst))
         \<and> min (length (sent1_tokens inst)) (max_prefix_length (config inst))
              \<le> max_suffix_length (config inst))"

section \<open>Basic facts\<close>

lemma rbind_Inl [simp]: "rbind (Inl e) f = Inl e"
  by (simp add: rbind_def)

lemma rbind_Inr [simp]: "rbind (Inr v) f = f v"
  by (simp add: rbind_def)

lemma rbind_eq_Inr: "rbind m f = Inr y \<longleftrightarrow> (\<exists>v. m = Inr v \<and> f v = Inr y)"
  by (cases m) simp_all

lemma length_split_on: "length (split_on sep s) = Suc (count_list s sep)"
  by (induction s) (auto split: list.splits)

section \<open>The configuration updater: derived lengths and the assertion\<close>

lemma length_filter_upt_card: "length (filter P [0 ..< n]) = card {i. i < n \<and> P i}"
proof -
  have "length (filter P [0 ..< n]) = card (set (filter P [0 ..< n]))"
    by (rule distinct_card [symmetric]) simp
  also have "set (filter P [0 ..< n]) = {i. i < n \<and> P i}"
    by auto
  finally show ?thesis .
qed

lemma derived_roberta_dense_length_pos:
  assumes "0 < content_aggregation a"
  shows "derived_roberta_dense_length a =
    Inr (if 502 < content_aggregation a then 0
         else card {i. i \<le> 500 \<and> int i mod content_aggregation a = 0})"
proof -
  have "{i. i < 501 \<and> int i mod content_aggregation a = 0}
      = {i. i \<le> (500::nat) \<and> int i mod content_aggregation a = 0}"
    by auto
  with assms show ?thesis
    by (simp add: derived_roberta_dense_length_def MAX_ROBERTA_LENGTH_def length_filter_upt_card)
qed

lemma multiples_beyond_range:
  assumes "500 < k"
  shows "{i. i \<le> (500::nat) \<and> int i mod k = 0} = {0}"
proof -
  have "i = 0" if "i \<le> 500" "int i mod k = 0" for i :: nat
  proof -
    from that assms have "int i mod k = int i" by simp
    with that show ?thesis by simp
  qed
  then show ?thesis by auto
qed

text \<open>
  C2, as the code has it. The guard of \<^verbatim>\<open>update_config\<close> compares the stride with
  \<^verbatim>\<open>MAX_ROBERTA_LENGTH\<close>, which is 502: for a positive stride above 502 the
  configuration gets \<open>roberta_dense_length = 0\<close>, and for every positive stride up to
  502 it gets the number of indices \<open>i\<close> in \<open>[0, 500]\<close> with \<open>i mod stride = 0\<close>.
  The update completes whenever the derived global dense length is within
  \<open>max_dense_length\<close>.
\<close>

theorem update_config_roberta_dense_length:
  assumes "0 < content_aggregation a"
    and "derived_global_dense_length a \<le> max_dense_length c"
  shows "\<exists>c'. update_config a c = Inr c' \<and>
    roberta_dense_length c' =
      Some (if 502 < content_aggregation a then 0
            else card {i. i \<le> 500 \<and> int i mod content_aggregation a = 0})"
  using assms
  by (simp add: update_config_def Let_def derived_roberta_dense_length_pos)

text \<open>The theorem at stride 1000, with no dense features: the length is 0.\<close>

theorem update_config_roberta_dense_length_witness:
  "\<exists>c'. update_config
     \<lparr>context_input_type = ''srl_input'', global_dense_feature_list = ''none'',
      content_aggregation = 1000, upper_length = ''eos''\<rparr>
     \<lparr>max_prefix_length = 50, max_suffix_length = 50, max_dense_length = 2,
      global_dense_length = None, roberta_dense_length = None\<rparr> = Inr c'
    \<and> roberta_dense_length c' = Some 0"
  using update_config_roberta_dense_length [of
     "\<lparr>context_input_type = ''srl_input'', global_dense_feature_list = ''none'',
      content_aggregation = 1000, upper_length = ''eos''\<rparr>"
     "\<lparr>max_prefix_length = 50, max_suffix_length = 50, max_dense_length = 2,
      global_dense_length = None, roberta_dense_length = None\<rparr>"]
  by (simp add: derived_global_dense_length_def)

text \<open>
  Stride 502 exceeds 501, and \<^verbatim>\<open>update_config\<close> still counts: index 0 is a multiple
  of every stride, so the length is 1 and not 0.
\<close>

theorem update_config_stride_502_counterexample:
  "501 < content_aggregation
     \<lparr>context_input_type = ''srl_input'', global_dense_feature_list = ''none'',
      content_aggregation = 502, upper_length = ''eos''\<rparr>
   \<and> update_config
     \<lparr>context_input_type = ''srl_input'', global_dense_feature_list = ''none'',
      content_aggregation = 502, upper_length = ''eos''\<rparr>
     \<lparr>max_prefix_length = 50, max_suffix_length = 50, max_dense_length = 2,
      global_dense_length = None, roberta_dense_length = None\<rparr>
   = Inr \<lparr>max_prefix_length = 50, max_suffix_length = 50, max_dense_length = 2,
      global_dense_length = Some 0, roberta_dense_length = Some 1\<rparr>"
  by (simp add: update_config_def Let_def derived_roberta_dense_length_pos multiples_beyond_range
      derived_global_dense_length_def no_srl_input_def endswith_def suffix_to_prefix)

text \<open>
  C8. For a positive stride, \<^verbatim>\<open>update_config\<close> fails with an assertion error exactly
  when the derived global dense length (the number of comma-separated fields of the
  feature list, or 0 for the sentinel \<^verbatim>\<open>none\<close>) exceeds \<open>max_dense_length\<close>; it has
  no other failure, and otherwise it completes and writes both derived lengths into the
  configuration.
\<close>

theorem update_config_assertion:
  assumes "0 < content_aggregation a"
  shows "(update_config a c = Inl AssertionError
            \<longleftrightarrow> max_dense_length c < derived_global_dense_length a)
    \<and> ((\<exists>e. update_config a c = Inl e)
            \<longleftrightarrow> max_dense_length c < derived_global_dense_length a)
    \<and> (derived_global_dense_length a \<le> max_dense_length c \<longrightarrow>
          (\<exists>rdl. derived_roberta_dense_length a = Inr rdl \<and>
             update_config a c =
               Inr ((if no_srl_input a then c\<lparr>max_prefix_length := 0\<rparr> else c)
                      \<lparr>global_dense_length := Some (derived_global_dense_length a),
                       roberta_dense_length := Some rdl\<rparr>)))"
  using assms
  by (auto simp add: update_config_def Let_def derived_roberta_dense_length_pos)

text \<open>
  The feature list \<^verbatim>\<open>a,b,c\<close> has three names: with \<open>max_dense_length = 2\<close> the
  update fails, with \<open>max_dense_length = 3\<close> it writes \<open>global_dense_length = 3\<close>.
\<close>

theorem update_config_assertion_witness:
  "update_config
     \<lparr>context_input_type = ''srl_input'', global_dense_feature_list = ''a,b,c'',
      content_aggregation = 5, upper_length = ''eos''\<rparr>
     \<lparr>max_prefix_length = 50, max_suffix_length = 50, max_dense_length = 2,
      global_dense_length = None, roberta_dense_length = None\<rparr> = Inl AssertionError
   \<and> (\<exists>rdl. update_config
     \<lparr>context_input_type = ''srl_input'', global_dense_feature_list = ''a,b,c'',
      content_aggregation = 5, upper_length = ''eos''\<rparr>
     \<lparr>max_prefix_length = 50, max_suffix_length = 50, max_dense_length = 3,
      global_dense_length = None, roberta_dense_length = None\<rparr>
     = Inr \<lparr>max_prefix_length = 50, max_suffix_length = 50, max_dense_length = 3,
      global_dense_length = Some 3, roberta_dense_length = Some rdl\<rparr>)"
  using update_config_assertion [of
     "\<lparr>context_input_type = ''srl_input'', global_dense_feature_list = ''a,b,c'',
      content_aggregation = 5, upper_length = ''eos''\<rparr>"
     "\<lparr>max_prefix_length = 50, max_suffix_length = 50, max_dense_length = 2,
      global_dense_length = None, roberta_dense_length = None\<rparr>"]
    update_config_assertion [of
     "\<lparr>context_input_type = ''srl_input'', global_dense_feature_list = ''a,b,c'',
      content_aggregation = 5, upper_length = ''eos''\<rparr>"
     "\<lparr>max_prefix_length = 50, max_suffix_length = 50, max_dense_length = 3,
      global_dense_length = None, roberta_dense_length = None\<rparr>"]
  by (auto simp add: derived_global_dense_length_def no_srl_input_def endswith_def
      suffix_to_prefix numeral_3_eq_3)

section \<open>Padding and the build steps\<close>

lemma rbind_eq_Inl:
  "rbind m f = Inl e \<longleftrightarrow> m = Inl e \<or> (\<exists>v. m = Inr v \<and> f v = Inl e)"
  by (cases m) simp_all

lemma left_padding_eq_Inr:
  "left_padding d p n = Inr r \<longleftrightarrow> length d \<le> n \<and> r = replicate (n - length d) p @ d"
  by (auto simp add: left_padding_def np_pad_def Let_def nat_diff_distrib')

lemma right_padding_eq_Inr:
  "right_padding d p n = Inr r \<longleftrightarrow> length d \<le> n \<and> r = d @ replicate (n - length d) p"
  by (auto simp add: right_padding_def np_pad_def Let_def nat_diff_distrib')

lemma left_padding_eq_Inl:
  "left_padding d p n = Inl e \<longleftrightarrow> n < length d \<and> e = ValueError"
  by (auto simp add: left_padding_def np_pad_def Let_def)

lemma right_padding_eq_Inl:
  "right_padding d p n = Inl e \<longleftrightarrow> n < length d \<and> e = ValueError"
  by (auto simp add: right_padding_def np_pad_def Let_def)

lemma attr_eq_Inr [simp]: "attr v = Inr x \<longleftrightarrow> v = Some x"
  by (simp add: attr_def split: option.splits)

lemma attr_eq_Inl [simp]: "attr v = Inl e \<longleftrightarrow> v = None \<and> e = AttributeError"
  by (auto simp add: attr_def split: option.splits)

lemma dict_get_eq_Inr [simp]: "dict_get v = Inr x \<longleftrightarrow> v = Some x"
  by (simp add: dict_get_def split: option.splits)

lemma dict_get_eq_Inl [simp]: "dict_get v = Inl e \<longleftrightarrow> v = None \<and> e = KeyError"
  by (auto simp add: dict_get_def split: option.splits)

lemma list_get_eq_Inr: "list_get xs i = Inr x \<longleftrightarrow> i < length xs \<and> x = xs ! i"
  by (auto simp add: list_get_def)

lemma list_get_eq_Inl: "list_get xs i = Inl e \<longleftrightarrow> length xs \<le> i \<and> e = IndexError"
  by (auto simp add: list_get_def)

lemma repeat_id_eq_Inr:
  "repeat_id ids k n = Inr r \<longleftrightarrow> (n = 0 \<or> k < length ids) \<and> r = replicate n (ids ! k)"
  by (auto simp add: repeat_id_def rbind_eq_Inr list_get_eq_Inr)

lemma repeat_id_eq_Inl:
  "repeat_id ids k n = Inl e \<longleftrightarrow> n \<noteq> 0 \<and> length ids \<le> k \<and> e = IndexError"
  by (auto simp add: repeat_id_def rbind_eq_Inl list_get_eq_Inl)

lemma dense_length_eq_Inr:
  "dense_length c = Inr d \<longleftrightarrow>
     (\<exists>g r. global_dense_length c = Some g \<and> roberta_dense_length c = Some r \<and> d = g + r)"
  by (auto simp add: dense_length_def rbind_eq_Inr)

lemma dense_length_eq_Inl:
  "dense_length c = Inl e \<longleftrightarrow>
     (global_dense_length c = None \<or> roberta_dense_length c = None) \<and> e = KeyError"
  by (cases "global_dense_length c"; cases "roberta_dense_length c")
     (auto simp add: dense_length_def dict_get_def)

lemma build_sentence_eq_Inr:
  "build_sentence tok inst = Inr inst' \<longleftrightarrow>
     (no_srl_input (args inst) \<or> length (sent1_tokens inst) \<le> max_prefix_length (config inst))
     \<and> length (sent2_tokens inst) \<le> max_suffix_length (config inst)
     \<and> inst' = (let p = (if no_srl_input (args inst) then []
                         else replicate (max_prefix_length (config inst) - length (sent1_tokens inst))
                                (pad_token_id tok) @ sent1_tokens inst);
                    s = sent2_tokens inst @ [eos_token_id tok]
                        @ replicate (max_suffix_length (config inst) - length (sent2_tokens inst))
                            (pad_token_id tok)
                in inst\<lparr>sent_prefix := Some p, sent_suffix := Some s,
                        sentence := Some (p @ [bos_token_id tok] @ s)\<rparr>)"
  by (auto simp add: build_sentence_def rbind_eq_Inr left_padding_eq_Inr right_padding_eq_Inr Let_def)

lemma build_sentence_error:
  "build_sentence tok inst = Inl e \<Longrightarrow> e = ValueError"
  by (auto simp add: build_sentence_def rbind_eq_Inl left_padding_eq_Inl right_padding_eq_Inl
      split: if_splits)

lemma build_label_eq_Inr:
  "build_label tok inst = Inr inst' \<longleftrightarrow>
     (\<exists>d p. dense_length (config inst) = Inr d \<and> sent_prefix inst = Some p
        \<and> length (sent2_tokens inst) \<le> max_suffix_length (config inst)
        \<and> inst' = (let ls = sent2_tokens inst @ [eos_token_id tok]
                        @ replicate (max_suffix_length (config inst) - length (sent2_tokens inst)) (- 1)
                    in inst\<lparr>label_suffix := Some ls,
                            label := Some (replicate d (- 1) @ replicate (length p) (- 1)
                                           @ [- 1] @ ls)\<rparr>))"
  by (auto simp add: build_label_def rbind_eq_Inr right_padding_eq_Inr Let_def)

lemma build_label_error:
  "build_label tok inst = Inl e \<Longrightarrow> e \<in> {KeyError, ValueError, AttributeError}"
  by (auto simp add: build_label_def rbind_eq_Inl dense_length_eq_Inl right_padding_eq_Inl)

lemma build_segment_Inr:
  assumes "build_segment tok inst = Inr inst'"
  shows "\<exists>d s. dense_length (config inst) = Inr d \<and> sent_suffix inst = Some s
     \<and> (\<exists>g. segment inst' = Some g
            \<and> length g = d + (case sent1_tokens_tags inst of
                                   Some tags \<Rightarrow> max_prefix_length (config inst)
                                 | None \<Rightarrow> length (the (sent_prefix inst)))
                             + 1 + length s)
     \<and> inst' = inst\<lparr>segment := segment inst'\<rparr>"
  using assms
  by (auto simp add: build_segment_def Let_def rbind_eq_Inr left_padding_eq_Inr
      repeat_id_eq_Inr split: option.splits)

lemma build_segment_error:
  "build_segment tok inst = Inl e \<Longrightarrow> e \<in> {KeyError, ValueError, AttributeError, IndexError}"
  by (auto simp add: build_segment_def Let_def rbind_eq_Inl dense_length_eq_Inl
      left_padding_eq_Inl list_get_eq_Inl repeat_id_eq_Inl split: option.splits)

section \<open>The pipeline\<close>

lemma truncate_fields [simp]:
  "args (truncate inst) = args inst"
  "config (truncate inst) = config inst"
  "init_context_size (truncate inst) = init_context_size inst"
  "sent1_tokens_tags (truncate inst) = sent1_tokens_tags inst"
  "sent1_tokens (truncate inst) = take (max_prefix_length (config inst)) (sent1_tokens inst)"
  "sent2_tokens (truncate inst) = take (max_suffix_length (config inst)) (sent2_tokens inst)"
  by (simp_all add: truncate_def Let_def)

lemma shuffle_fields [simp]:
  "args (fst (shuffle_prefix_suffix rnd inst)) = args inst"
  "config (fst (shuffle_prefix_suffix rnd inst)) = config inst"
  "init_context_size (fst (shuffle_prefix_suffix rnd inst)) = init_context_size inst"
  "sent1_tokens_tags (fst (shuffle_prefix_suffix rnd inst)) = sent1_tokens_tags inst"
  by (simp_all add: shuffle_prefix_suffix_def swap_tokens_def)

lemma shuffle_tokens:
  "(sent1_tokens (fst (shuffle_prefix_suffix rnd inst)) = sent1_tokens inst
      \<and> sent2_tokens (fst (shuffle_prefix_suffix rnd inst)) = sent2_tokens inst)
   \<or> ((str_in ''_shuffle_'' (context_input_type (args inst))
         \<or> str_in ''_reverse_'' (context_input_type (args inst)))
       \<and> sent1_tokens (fst (shuffle_prefix_suffix rnd inst)) = sent2_tokens inst
       \<and> sent2_tokens (fst (shuffle_prefix_suffix rnd inst)) = sent1_tokens inst)"
  by (simp add: shuffle_prefix_suffix_def swap_tokens_def)

lemma check_constraints_Inr: "check_constraints inst = Inr inst' \<Longrightarrow> inst' = inst"
  by (auto simp add: check_constraints_def rbind_eq_Inr split: if_splits)

lemma preprocess_Inr:
  assumes "preprocess tok rnd inst = Inr (inst', rnd')"
  shows "\<exists>i2 i3 i4. shuffle_prefix_suffix rnd (truncate inst) = (i2, rnd')
    \<and> build_sentence tok i2 = Inr i3 \<and> build_label tok i3 = Inr i4
    \<and> build_segment tok i4 = Inr inst' \<and> check_constraints inst' = Inr inst'"
  using assms
  by (auto simp add: preprocess_def rbind_eq_Inr split: prod.splits dest: check_constraints_Inr)

lemma preprocess_fields:
  assumes "preprocess tok rnd inst = Inr (inst', rnd')"
  shows "args inst' = args inst \<and> config inst' = config inst
    \<and> init_context_size inst' = init_context_size inst
    \<and> sent1_tokens_tags inst' = sent1_tokens_tags inst
    \<and> sent1_tokens inst' = sent1_tokens (fst (shuffle_prefix_suffix rnd (truncate inst)))
    \<and> sent2_tokens inst' = sent2_tokens (fst (shuffle_prefix_suffix rnd (truncate inst)))"
proof -
  from preprocess_Inr [OF assms] obtain i2 i3 i4 where
    sh: "shuffle_prefix_suffix rnd (truncate inst) = (i2, rnd')"
    and b1: "build_sentence tok i2 = Inr i3" and b2: "build_label tok i3 = Inr i4"
    and b3: "build_segment tok i4 = Inr inst'"
    by blast
  from sh have i2: "i2 = fst (shuffle_prefix_suffix rnd (truncate inst))" by simp
  from b1 have f3: "args i3 = args i2" "config i3 = config i2"
      "init_context_size i3 = init_context_size i2"
      "sent1_tokens_tags i3 = sent1_tokens_tags i2"
      "sent1_tokens i3 = sent1_tokens i2" "sent2_tokens i3 = sent2_tokens i2"
    by (simp_all add: build_sentence_eq_Inr Let_def)
  from b2 have f4: "args i4 = args i3" "config i4 = config i3"
      "init_context_size i4 = init_context_size i3"
      "sent1_tokens_tags i4 = sent1_tokens_tags i3"
      "sent1_tokens i4 = sent1_tokens i3" "sent2_tokens i4 = sent2_tokens i3"
    by (auto simp add: build_label_eq_Inr Let_def)
  from build_segment_Inr [OF b3] have f5: "inst' = i4\<lparr>segment := segment inst'\<rparr>"
    by blast
  have f5': "args inst' = args i4" "config inst' = config i4"
      "init_context_size inst' = init_context_size i4"
      "sent1_tokens_tags inst' = sent1_tokens_tags i4"
      "sent1_tokens inst' = sent1_tokens i4" "sent2_tokens inst' = sent2_tokens i4"
    by (subst f5, simp)+
  show ?thesis
    by (simp add: f5' f4 f3 i2)
qed

lemma preprocess_sentence:
  assumes "preprocess tok rnd inst = Inr (inst', rnd')"
  shows "\<exists>p s. sent_prefix inst' = Some p \<and> sent_suffix inst' = Some s
    \<and> sentence inst' = Some (p @ [bos_token_id tok] @ s)
    \<and> length p = (if no_srl_input (args inst) then 0 else max_prefix_length (config inst))
    \<and> length s = max_suffix_length (config inst) + 1"
proof -
  from preprocess_Inr [OF assms] obtain i2 i3 i4 where
    sh: "shuffle_prefix_suffix rnd (truncate inst) = (i2, rnd')"
    and b1: "build_sentence tok i2 = Inr i3" and b2: "build_label tok i3 = Inr i4"
    and b3: "build_segment tok i4 = Inr inst'"
    by blast
  from sh have i2: "i2 = fst (shuffle_prefix_suffix rnd (truncate inst))" by simp
  have a2: "args i2 = args inst" "config i2 = config inst"
    by (simp_all add: i2)
  from b1 obtain p s where
    p3: "sent_prefix i3 = Some p" "sent_suffix i3 = Some s"
      "sentence i3 = Some (p @ [bos_token_id tok] @ s)"
    and lp: "length p = (if no_srl_input (args i2) then 0 else max_prefix_length (config i2))"
    and ls: "length s = max_suffix_length (config i2) + 1"
    by (auto simp add: build_sentence_eq_Inr Let_def)
  from b2 have p4: "sent_prefix i4 = sent_prefix i3" "sent_suffix i4 = sent_suffix i3"
      "sentence i4 = sentence i3"
    by (auto simp add: build_label_eq_Inr Let_def)
  from build_segment_Inr [OF b3] have f5: "inst' = i4\<lparr>segment := segment inst'\<rparr>"
    by blast
  have p5: "sent_prefix inst' = sent_prefix i4" "sent_suffix inst' = sent_suffix i4"
      "sentence inst' = sentence i4"
    by (subst f5, simp)+
  show ?thesis
    using lp ls by (simp add: p5 p4 p3 a2)
qed

section \<open>Truncation and the swap of prefix and suffix\<close>

text \<open>
  C5. On an instance whose flag is still \<open>False\<close>, as the constructor leaves it:
  a prefix longer than \<open>max_prefix_length\<close> is cut to its first
  \<open>max_prefix_length\<close> ids and the flag is set, and the same for the suffix and
  \<open>max_suffix_length\<close>; when neither is longer than its limit, the instance is
  unchanged and the flag stays \<open>False\<close>; the flag is set exactly when one of the two
  sequences became shorter.
\<close>

theorem truncate_spec:
  assumes "\<not> truncated inst"
  shows "(max_prefix_length (config inst) < length (sent1_tokens inst) \<longrightarrow>
            sent1_tokens (truncate inst)
              = take (max_prefix_length (config inst)) (sent1_tokens inst)
            \<and> truncated (truncate inst))
    \<and> (max_suffix_length (config inst) < length (sent2_tokens inst) \<longrightarrow>
            sent2_tokens (truncate inst)
              = take (max_suffix_length (config inst)) (sent2_tokens inst)
            \<and> truncated (truncate inst))
    \<and> (\<not> max_prefix_length (config inst) < length (sent1_tokens inst) \<and>
        \<not> max_suffix_length (config inst) < length (sent2_tokens inst) \<longrightarrow>
            truncate inst = inst \<and> \<not> truncated (truncate inst))
    \<and> (truncated (truncate inst) \<longleftrightarrow>
           length (sent1_tokens (truncate inst)) < length (sent1_tokens inst)
           \<or> length (sent2_tokens (truncate inst)) < length (sent2_tokens inst))"
  using assms by (auto simp add: truncate_def Let_def)

text \<open>Limits 2 and 3 on a prefix of three ids and a suffix of two: only the prefix is cut.\<close>

theorem truncate_spec_witness:
  "truncate
     \<lparr>args = \<lparr>context_input_type = ''srl_input'', global_dense_feature_list = ''none'',
              content_aggregation = 1000, upper_length = ''eos''\<rparr>,
      config = \<lparr>max_prefix_length = 2, max_suffix_length = 3, max_dense_length = 2,
              global_dense_length = Some 0, roberta_dense_length = Some 0\<rparr>,
      truncated = False, sent1_tokens = [11, 12, 13], sent1_tokens_tags = None,
      sent2_tokens = [21, 22], init_context_size = 3,
      sent_prefix = None, sent_suffix = None, sentence = None,
      label_suffix = None, label = None, segment = None, gdv = None\<rparr>
   = \<lparr>args = \<lparr>context_input_type = ''srl_input'', global_dense_feature_list = ''none'',
              content_aggregation = 1000, upper_length = ''eos''\<rparr>,
      config = \<lparr>max_prefix_length = 2, max_suffix_length = 3, max_dense_length = 2,
              global_dense_length = Some 0, roberta_dense_length = Some 0\<rparr>,
      truncated = True, sent1_tokens = [11, 12], sent1_tokens_tags = None,
      sent2_tokens = [21, 22], init_context_size = 3,
      sent_prefix = None, sent_suffix = None, sentence = None,
      label_suffix = None, label = None, segment = None, gdv = None\<rparr>"
  using truncate_spec [of
    "\<lparr>args = \<lparr>context_input_type = ''srl_input'', global_dense_feature_list = ''none'',
              content_aggregation = 1000, upper_length = ''eos''\<rparr>,
      config = \<lparr>max_prefix_length = 2, max_suffix_length = 3, max_dense_length = 2,
              global_dense_length = Some 0, roberta_dense_length = Some 0\<rparr>,
      truncated = False, sent1_tokens = [11, 12, 13], sent1_tokens_tags = None,
      sent2_tokens = [21, 22], init_context_size = 3,
      sent_prefix = None, sent_suffix = None, sentence = None,
      label_suffix = None, label = None, segment = None, gdv = None\<rparr>"]
  by (simp add: truncate_def Let_def)

text \<open>
  C3, as the code has it. The \<^verbatim>\<open>_reverse_\<close> branch is the \<^verbatim>\<open>elif\<close> of the
  \<^verbatim>\<open>_shuffle_\<close> test: for a mode that contains \<^verbatim>\<open>_reverse_\<close> and does not
  contain \<^verbatim>\<open>_shuffle_\<close>, step 2 swaps the two arrays whatever the random stream is,
  and leaves the stream as it was.
\<close>

theorem reverse_swaps:
  assumes "str_in ''_reverse_'' (context_input_type (args inst))"
    and "\<not> str_in ''_shuffle_'' (context_input_type (args inst))"
  shows "shuffle_prefix_suffix rnd inst
    = (inst\<lparr>sent1_tokens := sent2_tokens inst, sent2_tokens := sent1_tokens inst\<rparr>, rnd)"
  using assms by (simp add: shuffle_prefix_suffix_def swap_tokens_def)

text \<open>The mode \<^verbatim>\<open>srl_reverse_input\<close>, with a stream whose first draw is above one half.\<close>

theorem reverse_swaps_witness:
  "shuffle_prefix_suffix (sconst (9 / 10))
     \<lparr>args = \<lparr>context_input_type = ''srl_reverse_input'',
              global_dense_feature_list = ''none'',
              content_aggregation = 1000, upper_length = ''eos''\<rparr>,
      config = \<lparr>max_prefix_length = 3, max_suffix_length = 3, max_dense_length = 2,
              global_dense_length = Some 0, roberta_dense_length = Some 0\<rparr>,
      truncated = False, sent1_tokens = [11, 12], sent1_tokens_tags = None,
      sent2_tokens = [21], init_context_size = 4,
      sent_prefix = None, sent_suffix = None, sentence = None,
      label_suffix = None, label = None, segment = None, gdv = None\<rparr>
   = (\<lparr>args = \<lparr>context_input_type = ''srl_reverse_input'',
              global_dense_feature_list = ''none'',
              content_aggregation = 1000, upper_length = ''eos''\<rparr>,
      config = \<lparr>max_prefix_length = 3, max_suffix_length = 3, max_dense_length = 2,
              global_dense_length = Some 0, roberta_dense_length = Some 0\<rparr>,
      truncated = False, sent1_tokens = [21], sent1_tokens_tags = None,
      sent2_tokens = [11, 12], init_context_size = 4,
      sent_prefix = None, sent_suffix = None, sentence = None,
      label_suffix = None, label = None, segment = None, gdv = None\<rparr>, sconst (9 / 10))"
  using reverse_swaps [of
     "\<lparr>args = \<lparr>context_input_type = ''srl_reverse_input'',
              global_dense_feature_list = ''none'',
              content_aggregation = 1000, upper_length = ''eos''\<rparr>,
      config = \<lparr>max_prefix_length = 3, max_suffix_length = 3, max_dense_length = 2,
              global_dense_length = Some 0, roberta_dense_length = Some 0\<rparr>,
      truncated = False, sent1_tokens = [11, 12], sent1_tokens_tags = None,
      sent2_tokens = [21], init_context_size = 4,
      sent_prefix = None, sent_suffix = None, sentence = None,
      label_suffix = None, label = None, segment = None, gdv = None\<rparr>" "sconst (9 / 10)"]
  by simp

text \<open>
  A mode with both markers takes the shuffle branch: with a first draw above one half the
  arrays are not swapped, with a first draw below they are.
\<close>

theorem reverse_with_shuffle_counterexample:
  "str_in ''_reverse_'' ''srl_shuffle_reverse_input''
   \<and> sent1_tokens (fst (shuffle_prefix_suffix (sconst (9 / 10))
     \<lparr>args = \<lparr>context_input_type = ''srl_shuffle_reverse_input'',
              global_dense_feature_list = ''none'',
              content_aggregation = 1000, upper_length = ''eos''\<rparr>,
      config = \<lparr>max_prefix_length = 3, max_suffix_length = 3, max_dense_length = 2,
              global_dense_length = Some 0, roberta_dense_length = Some 0\<rparr>,
      truncated = False, sent1_tokens = [11, 12], sent1_tokens_tags = None,
      sent2_tokens = [21], init_context_size = 4,
      sent_prefix = None, sent_suffix = None, sentence = None,
      label_suffix = None, label = None, segment = None, gdv = None\<rparr>)) = [11, 12]
   \<and> sent1_tokens (fst (shuffle_prefix_suffix (sconst (1 / 10))
     \<lparr>args = \<lparr>context_input_type = ''srl_shuffle_reverse_input'',
              global_dense_feature_list = ''none'',
              content_aggregation = 1000, upper_length = ''eos''\<rparr>,
      config = \<lparr>max_prefix_length = 3, max_suffix_length = 3, max_dense_length = 2,
              global_dense_length = Some 0, roberta_dense_length = Some 0\<rparr>,
      truncated = False, sent1_tokens = [11, 12], sent1_tokens_tags = None,
      sent2_tokens = [21], init_context_size = 4,
      sent_prefix = None, sent_suffix = None, sentence = None,
      label_suffix = None, label = None, segment = None, gdv = None\<rparr>)) = [21]"
  by (simp add: shuffle_prefix_suffix_def swap_tokens_def)

section \<open>Labels\<close>

lemma nth_replicate_append: "i < n \<Longrightarrow> (replicate n x @ ys) ! i = x"
  by (simp add: nth_append)

text \<open>
  C6. When \<^verbatim>\<open>build_label\<close> returns, the label starts with
  \<open>dense_length + len(sent_prefix) + 1\<close> masked positions (the dense slots, the prefix
  positions and the bos slot), every one of them \<open>-1\<close>, and the rest of the label is
  \<open>sent2_tokens @ [eos]\<close> right-padded with \<open>-1\<close> to \<open>max_suffix_length + 1\<close>
  entries, exactly.
\<close>

theorem build_label_masks:
  assumes "build_label tok inst = Inr inst'"
  shows "\<exists>d p l. dense_length (config inst) = Inr d \<and> sent_prefix inst = Some p
    \<and> label inst' = Some l
    \<and> (\<forall>i < d + length p + 1. l ! i = - 1)
    \<and> right_padding (sent2_tokens inst @ [eos_token_id tok]) (- 1)
          (max_suffix_length (config inst) + 1) = Inr (drop (d + length p + 1) l)
    \<and> drop (d + length p + 1) l
        = sent2_tokens inst @ [eos_token_id tok]
            @ replicate (max_suffix_length (config inst) - length (sent2_tokens inst)) (- 1)
    \<and> length l = d + length p + 1 + (max_suffix_length (config inst) + 1)"
proof -
  from assms obtain d p where
    d: "dense_length (config inst) = Inr d" and p: "sent_prefix inst = Some p"
    and fit: "length (sent2_tokens inst) \<le> max_suffix_length (config inst)"
    and l: "label inst' = Some (replicate d (- 1) @ replicate (length p) (- 1) @ [- 1]
              @ sent2_tokens inst @ [eos_token_id tok]
              @ replicate (max_suffix_length (config inst) - length (sent2_tokens inst)) (- 1))"
    by (auto simp add: build_label_eq_Inr Let_def)
  define ls where "ls = sent2_tokens inst @ [eos_token_id tok]
      @ replicate (max_suffix_length (config inst) - length (sent2_tokens inst)) (- 1)"
  have mask: "replicate d (- 1) @ replicate (length p) (- 1) @ [- 1] @ ls
      = replicate (d + length p + 1) (- 1 :: int) @ ls"
    by (simp add: replicate_add replicate_append_same)
  have l': "label inst' = Some (replicate (d + length p + 1) (- 1) @ ls)"
    using l mask by (simp add: ls_def)
  have pad: "right_padding (sent2_tokens inst @ [eos_token_id tok]) (- 1)
      (max_suffix_length (config inst) + 1) = Inr ls"
    using fit by (simp add: right_padding_eq_Inr ls_def)
  have front: "\<forall>i < d + length p + 1. (replicate (d + length p + 1) (- 1) @ ls) ! i = - 1"
    by (intro allI impI) (rule nth_replicate_append)
  have len: "length ls = max_suffix_length (config inst) + 1"
    using fit by (simp add: ls_def)
  show ?thesis
    using d p l' pad front len by (simp add: ls_def)
qed

text \<open>
  A suffix of two ids under \<open>max_suffix_length = 3\<close>, one dense slot and a prefix of
  two positions.
\<close>

theorem build_label_masks_witness:
  "map_sum id label (build_label
     \<lparr>pad_token_id = 0, bos_token_id = 1, eos_token_id = 2,
      additional_special_tokens_ids = [7, 8, 9],
      tokenize = (\<lambda>s. [s]), convert_token_to_id = (\<lambda>t. 5), decode = (\<lambda>ids. [])\<rparr>
     \<lparr>args = \<lparr>context_input_type = ''srl_input'', global_dense_feature_list = ''none'',
              content_aggregation = 1000, upper_length = ''eos''\<rparr>,
      config = \<lparr>max_prefix_length = 2, max_suffix_length = 3, max_dense_length = 2,
              global_dense_length = Some 1, roberta_dense_length = Some 0\<rparr>,
      truncated = False, sent1_tokens = [11], sent1_tokens_tags = None,
      sent2_tokens = [21, 22], init_context_size = 3,
      sent_prefix = Some [0, 11], sent_suffix = Some [21, 22, 2, 0],
      sentence = Some [0, 11, 1, 21, 22, 2, 0],
      label_suffix = None, label = None, segment = None, gdv = None\<rparr>)
     = Inr (Some [- 1, - 1, - 1, - 1, 21, 22, 2, - 1])"
  using build_label_masks [of
     "\<lparr>pad_token_id = 0, bos_token_id = 1, eos_token_id = 2,
      additional_special_tokens_ids = [7, 8, 9],
      tokenize = (\<lambda>s. [s]), convert_token_to_id = (\<lambda>t. 5), decode = (\<lambda>ids. [])\<rparr>"
     "\<lparr>args = \<lparr>context_input_type = ''srl_input'', global_dense_feature_list = ''none'',
              content_aggregation = 1000, upper_length = ''eos''\<rparr>,
      config = \<lparr>max_prefix_length = 2, max_suffix_length = 3, max_dense_length = 2,
              global_dense_length = Some 1, roberta_dense_length = Some 0\<rparr>,
      truncated = False, sent1_tokens = [11], sent1_tokens_tags = None,
      sent2_tokens = [21, 22], init_context_size = 3,
      sent_prefix = Some [0, 11], sent_suffix = Some [21, 22, 2, 0],
      sentence = Some [0, 11, 1, 21, 22, 2, 0],
      label_suffix = None, label = None, segment = None, gdv = None\<rparr>"]
  by (simp add: build_label_def dense_length_def dict_get_def attr_def right_padding_def
      np_pad_def Let_def)

section \<open>The length constraints\<close>

lemma attr_Some [simp]: "attr (Some x) = Inr x"
  by (simp add: attr_def)

lemma dict_get_Some [simp]: "dict_get (Some x) = Inr x"
  by (simp add: dict_get_def)

lemma check_after_build:
  assumes b1: "build_sentence tok i2 = Inr i3"
    and b2: "build_label tok i3 = Inr i4"
    and b3: "build_segment tok i4 = Inr i5"
    and tm: "tags_fit_mode i2"
  shows "check_constraints i5 = Inr i5"
proof -
  from b1 obtain p s where
    p3: "sent_prefix i3 = Some p" "sent_suffix i3 = Some s"
      "sentence i3 = Some (p @ [bos_token_id tok] @ s)"
    and lp: "length p = (if no_srl_input (args i2) then 0 else max_prefix_length (config i2))"
    and ls: "length s = max_suffix_length (config i2) + 1"
    and f3: "config i3 = config i2" "sent1_tokens_tags i3 = sent1_tokens_tags i2"
      "sent2_tokens i3 = sent2_tokens i2"
    by (auto simp add: build_sentence_eq_Inr Let_def)
  from b2 p3 obtain d l where
    d: "dense_length (config i3) = Inr d"
    and l4: "label i4 = Some l" and ll: "length l = d + length p + 1 + length s"
    and p4: "sent_prefix i4 = Some p" "sent_suffix i4 = Some s"
      "sentence i4 = Some (p @ [bos_token_id tok] @ s)"
    and f4: "config i4 = config i3" "sent1_tokens_tags i4 = sent1_tokens_tags i3"
    by (auto simp add: build_label_eq_Inr Let_def ls f3)
  from build_segment_Inr [OF b3] obtain d' s' g where
    d': "dense_length (config i4) = Inr d'" and s': "sent_suffix i4 = Some s'"
    and g: "segment i5 = Some g"
    and lg': "length g = d' + (case sent1_tokens_tags i4 of
                Some tags \<Rightarrow> max_prefix_length (config i4)
              | None \<Rightarrow> length (the (sent_prefix i4))) + 1 + length s'"
    and i5: "i5 = i4\<lparr>segment := segment i5\<rparr>"
    by blast
  from d' d f4 have "d' = d" by simp
  moreover from s' p4 have "s' = s" by simp
  ultimately have lg: "length g = d + (case sent1_tokens_tags i4 of
                Some tags \<Rightarrow> max_prefix_length (config i4) | None \<Rightarrow> length p) + 1 + length s"
    using lg' p4 by (simp split: option.splits)
  have f5: "config i5 = config i4" "sentence i5 = sentence i4" "label i5 = label i4"
    by (subst i5, simp)+
  have plen: "(case sent1_tokens_tags i4 of
                Some tags \<Rightarrow> max_prefix_length (config i4) | None \<Rightarrow> length p) = length p"
    using tm lp by (auto simp add: tags_fit_mode_def f4 f3 split: option.splits)
  show ?thesis
    using d ll lg plen g by (simp add: check_constraints_def f5 f4 l4 p4)
qed

lemma check_constraints_lengths:
  assumes "check_constraints inst = Inr inst'"
  shows "\<exists>d s l g. dense_length (config inst) = Inr d \<and> sentence inst = Some s
    \<and> label inst = Some l \<and> segment inst = Some g
    \<and> int (length s) = int (length l) - int d \<and> int (length s) = int (length g) - int d"
  using assms by (auto simp add: check_constraints_def rbind_eq_Inr split: if_splits)

lemma preprocess_Inl:
  assumes "preprocess tok rnd inst = Inl e"
  shows "e \<in> {KeyError, ValueError, AttributeError, IndexError}
    \<or> (\<exists>i3 i4 i5. build_sentence tok (fst (shuffle_prefix_suffix rnd (truncate inst))) = Inr i3
          \<and> build_label tok i3 = Inr i4 \<and> build_segment tok i4 = Inr i5
          \<and> check_constraints i5 = Inl e)"
  using assms
  by (auto simp add: preprocess_def rbind_eq_Inl split: prod.splits
      dest: build_sentence_error build_label_error build_segment_error)

lemma tags_fit_mode_shuffle_truncate:
  "tags_fit_mode (fst (shuffle_prefix_suffix rnd (truncate inst))) = tags_fit_mode inst"
  by (simp add: tags_fit_mode_def)

lemma list_get_in_range: "i < length xs \<Longrightarrow> list_get xs i = Inr (xs ! i)"
  by (simp add: list_get_def)

lemma repeat_id_in_range: "k < length ids \<Longrightarrow> repeat_id ids k n = Inr (replicate n (ids ! k))"
  by (simp add: repeat_id_def list_get_def)

lemma left_padding_fits:
  "length d \<le> n \<Longrightarrow> left_padding d p n = Inr (replicate (n - length d) p @ d)"
  by (simp add: left_padding_eq_Inr)

lemma build_segment_returns:
  assumes d: "dense_length (config inst) = Inr d"
    and ids: "3 \<le> length (additional_special_tokens_ids tok)"
    and s: "sent_suffix inst = Some s"
    and p: "sent_prefix inst = Some p"
    and tags: "case sent1_tokens_tags inst of
      None \<Rightarrow> True | Some tags \<Rightarrow> length tags \<le> max_prefix_length (config inst)"
  shows "\<exists>inst'. build_segment tok inst = Inr inst'"
proof (cases "sent1_tokens_tags inst")
  from ids have in_range: "0 < length (additional_special_tokens_ids tok)"
      "Suc 0 < length (additional_special_tokens_ids tok)"
      "2 < length (additional_special_tokens_ids tok)"
    by auto
  case None
  with d in_range s p show ?thesis
    by (simp add: build_segment_def Let_def list_get_in_range repeat_id_in_range)
next
  case (Some ts)
  with tags have "length (convert_tokens_to_ids tok ts) \<le> max_prefix_length (config inst)"
    by (simp add: convert_tokens_to_ids_def)
  moreover from ids have "0 < length (additional_special_tokens_ids tok)"
      "Suc 0 < length (additional_special_tokens_ids tok)"
    by auto
  ultimately show ?thesis
    using Some d s
    by (simp add: build_segment_def Let_def list_get_in_range repeat_id_in_range
        left_padding_fits)
qed

lemma preprocess_ready_returns:
  assumes ready: "pipeline_ready tok inst" and tm: "tags_fit_mode inst"
  shows "\<exists>inst'. preprocess tok rnd inst
    = Inr (inst', snd (shuffle_prefix_suffix rnd (truncate inst)))"
proof -
  define i2 where "i2 = fst (shuffle_prefix_suffix rnd (truncate inst))"
  define rnd' where "rnd' = snd (shuffle_prefix_suffix rnd (truncate inst))"
  have sh: "shuffle_prefix_suffix rnd (truncate inst) = (i2, rnd')"
    by (simp add: i2_def rnd'_def)
  have f2: "args i2 = args inst" "config i2 = config inst"
      "sent1_tokens_tags i2 = sent1_tokens_tags inst"
    by (simp_all add: i2_def)
  from ready obtain g r where
    gr: "global_dense_length (config inst) = Some g" "roberta_dense_length (config inst) = Some r"
    by (auto simp add: pipeline_ready_def)
  from ready have ids: "3 \<le> length (additional_special_tokens_ids tok)"
    by (simp add: pipeline_ready_def)
  have fits: "(no_srl_input (args inst) \<or> length (sent1_tokens i2) \<le> max_prefix_length (config inst))
      \<and> length (sent2_tokens i2) \<le> max_suffix_length (config inst)"
    using ready shuffle_tokens [of rnd "truncate inst"]
    by (auto simp add: pipeline_ready_def i2_def)
  then obtain i3 where b1: "build_sentence tok i2 = Inr i3"
    by (simp add: build_sentence_eq_Inr f2)
  from b1 obtain p where p3: "sent_prefix i3 = Some p"
    and f3: "config i3 = config i2" "sent1_tokens_tags i3 = sent1_tokens_tags i2"
      "sent2_tokens i3 = sent2_tokens i2" "sent_suffix i3 \<noteq> None"
    by (auto simp add: build_sentence_eq_Inr Let_def)
  from fits gr p3 obtain i4 where b2: "build_label tok i3 = Inr i4"
    by (simp add: build_label_eq_Inr dense_length_eq_Inr f3 f2)
  from b2 p3 f3 have f4: "config i4 = config i3" "sent1_tokens_tags i4 = sent1_tokens_tags i3"
      "sent_prefix i4 = Some p" "sent_suffix i4 \<noteq> None"
    by (auto simp add: build_label_eq_Inr Let_def)
  have tags: "case sent1_tokens_tags i4 of
      None \<Rightarrow> True | Some tags \<Rightarrow> length tags \<le> max_prefix_length (config i4)"
    using ready by (auto simp add: pipeline_ready_def f4 f3 f2 split: option.splits)
  from f4 obtain s where s4: "sent_suffix i4 = Some s" by auto
  have d4: "dense_length (config i4) = Inr (g + r)"
    using gr by (simp add: dense_length_eq_Inr f4 f3 f2)
  from build_segment_returns [OF d4 ids s4 f4(3) tags]
  have "\<exists>i5. build_segment tok i4 = Inr i5" .
  then obtain i5 where b3: "build_segment tok i4 = Inr i5" ..
  have "tags_fit_mode i2"
    using tm by (simp add: i2_def tags_fit_mode_shuffle_truncate)
  from check_after_build [OF b1 b2 b3 this] have chk: "check_constraints i5 = Inr i5" .
  have "preprocess tok rnd inst = Inr (i5, snd (shuffle_prefix_suffix rnd (truncate inst)))"
    using b1 b2 b3 chk unfolding preprocess_def i2_def by (simp add: case_prod_beta)
  then show ?thesis ..
qed

text \<open>
  C1. For an instance whose tags fit its mode, the assertion of
  \<^verbatim>\<open>check_constraints\<close> is unreachable: \<^verbatim>\<open>preprocess\<close> never fails with an
  assertion error. Whenever \<^verbatim>\<open>preprocess\<close> returns, the sentence is as long as the
  label and as the segment, each less the dense length. And under the preconditions of the
  pipeline (among them a tag sequence within \<open>max_prefix_length\<close>) it does return.
\<close>

theorem preprocess_check_constraints:
  assumes "tags_fit_mode inst"
  shows "preprocess tok rnd inst \<noteq> Inl AssertionError
    \<and> (\<forall>inst' rnd'. preprocess tok rnd inst = Inr (inst', rnd') \<longrightarrow>
         (\<exists>d s l g. dense_length (config inst') = Inr d \<and> sentence inst' = Some s
            \<and> label inst' = Some l \<and> segment inst' = Some g
            \<and> int (length s) = int (length l) - int d
            \<and> int (length s) = int (length g) - int d))
    \<and> (pipeline_ready tok inst \<longrightarrow>
         (\<exists>inst'. preprocess tok rnd inst
            = Inr (inst', snd (shuffle_prefix_suffix rnd (truncate inst)))))"
proof (intro conjI allI impI)
  show "preprocess tok rnd inst \<noteq> Inl AssertionError"
  proof
    assume "preprocess tok rnd inst = Inl AssertionError"
    from preprocess_Inl [OF this] obtain i3 i4 i5 where
      b1: "build_sentence tok (fst (shuffle_prefix_suffix rnd (truncate inst))) = Inr i3"
      and b2: "build_label tok i3 = Inr i4" and b3: "build_segment tok i4 = Inr i5"
      and c: "check_constraints i5 = Inl AssertionError"
      by auto
    have "tags_fit_mode (fst (shuffle_prefix_suffix rnd (truncate inst)))"
      using assms by (simp add: tags_fit_mode_shuffle_truncate)
    from check_after_build [OF b1 b2 b3 this] c show False by simp
  qed
next
  fix inst' rnd'
  assume "preprocess tok rnd inst = Inr (inst', rnd')"
  from preprocess_Inr [OF this] have "check_constraints inst' = Inr inst'" by blast
  from check_constraints_lengths [OF this]
  show "\<exists>d s l g. dense_length (config inst') = Inr d \<and> sentence inst' = Some s
            \<and> label inst' = Some l \<and> segment inst' = Some g
            \<and> int (length s) = int (length l) - int d
            \<and> int (length s) = int (length g) - int d" .
next
  assume "pipeline_ready tok inst"
  from preprocess_ready_returns [OF this assms]
  show "\<exists>inst'. preprocess tok rnd inst
            = Inr (inst', snd (shuffle_prefix_suffix rnd (truncate inst)))" .
qed

text \<open>
  A tag-input instance with one tag, limits 3 and 2, one dense slot: the suffix is cut to
  two ids, and the three arrays have lengths 7, 8 and 8.
\<close>

theorem preprocess_check_constraints_witness:
  "preprocess
     \<lparr>pad_token_id = 0, bos_token_id = 1, eos_token_id = 2,
      additional_special_tokens_ids = [7, 8, 9],
      tokenize = (\<lambda>s. [s]), convert_token_to_id = (\<lambda>t. 5), decode = (\<lambda>ids. [])\<rparr>
     (sconst (9 / 10))
     \<lparr>args = \<lparr>context_input_type = ''srl_input'', global_dense_feature_list = ''a'',
              content_aggregation = 1000, upper_length = ''eos''\<rparr>,
      config = \<lparr>max_prefix_length = 3, max_suffix_length = 2, max_dense_length = 2,
              global_dense_length = Some 1, roberta_dense_length = Some 0\<rparr>,
      truncated = False, sent1_tokens = [11, 12], sent1_tokens_tags = Some [''x''],
      sent2_tokens = [21, 22, 23], init_context_size = 4,
      sent_prefix = None, sent_suffix = None, sentence = None,
      label_suffix = None, label = None, segment = None, gdv = None\<rparr>
   = Inr (\<lparr>args = \<lparr>context_input_type = ''srl_input'', global_dense_feature_list = ''a'',
              content_aggregation = 1000, upper_length = ''eos''\<rparr>,
      config = \<lparr>max_prefix_length = 3, max_suffix_length = 2, max_dense_length = 2,
              global_dense_length = Some 1, roberta_dense_length = Some 0\<rparr>,
      truncated = True, sent1_tokens = [11, 12], sent1_tokens_tags = Some [''x''],
      sent2_tokens = [21, 22], init_context_size = 4,
      sent_prefix = Some [0, 11, 12], sent_suffix = Some [21, 22, 2],
      sentence = Some [0, 11, 12, 1, 21, 22, 2],
      label_suffix = Some [21, 22, 2],
      label = Some [- 1, - 1, - 1, - 1, - 1, 21, 22, 2],
      segment = Some [7, 0, 0, 5, 8, 8, 8, 8], gdv = None\<rparr>, sconst (9 / 10))"
  using preprocess_check_constraints [of
     "\<lparr>args = \<lparr>context_input_type = ''srl_input'', global_dense_feature_list = ''a'',
              content_aggregation = 1000, upper_length = ''eos''\<rparr>,
      config = \<lparr>max_prefix_length = 3, max_suffix_length = 2, max_dense_length = 2,
              global_dense_length = Some 1, roberta_dense_length = Some 0\<rparr>,
      truncated = False, sent1_tokens = [11, 12], sent1_tokens_tags = Some [''x''],
      sent2_tokens = [21, 22, 23], init_context_size = 4,
      sent_prefix = None, sent_suffix = None, sentence = None,
      label_suffix = None, label = None, segment = None, gdv = None\<rparr>"
     "\<lparr>pad_token_id = 0, bos_token_id = 1, eos_token_id = 2,
      additional_special_tokens_ids = [7, 8, 9],
      tokenize = (\<lambda>s. [s]), convert_token_to_id = (\<lambda>t. 5), decode = (\<lambda>ids. [])\<rparr>"
     "sconst (9 / 10)"]
  by (simp add: preprocess_def truncate_def shuffle_prefix_suffix_def build_sentence_def
      build_label_def build_segment_def check_constraints_def dense_length_def
      left_padding_def right_padding_def np_pad_def list_get_def repeat_id_def
      convert_tokens_to_ids_def no_srl_input_def endswith_def suffix_to_prefix Let_def
      numeral_2_eq_2)

section \<open>What the constructors and the updater establish\<close>

lemma Instance_init_Inr:
  assumes "Instance_init a c s1 s2 = Inr inst"
  shows "args inst = a \<and> config inst = c \<and> \<not> truncated inst
    \<and> sent1_tokens inst = s1 \<and> sent2_tokens inst = s2 \<and> sent1_tokens_tags inst = None
    \<and> init_context_size inst = max_prefix_length c + 1"
  using assms
  by (auto simp add: Instance_init_def rbind_eq_Inr np_array_int32_def split: if_splits)

lemma Instance_init_tags_fit_mode:
  "Instance_init a c s1 s2 = Inr inst \<Longrightarrow> tags_fit_mode inst"
  by (simp add: tags_fit_mode_def Instance_init_Inr)

lemma HPInstance_init_tags_fit_mode:
  assumes "HPInstance_init a c d = Inr inst"
  shows "tags_fit_mode inst \<and> \<not> truncated inst
    \<and> init_context_size inst = max_prefix_length (config inst) + 1"
  using assms
  by (auto simp add: HPInstance_init_def decide_sent1_tokens_def rbind_eq_Inr
      tags_fit_mode_def no_srl_input_def split: if_splits roberta_input.splits)

lemma update_config_no_srl_prefix:
  assumes "update_config a c = Inr c'"
  shows "(no_srl_input a \<longrightarrow> max_prefix_length c' = 0)
    \<and> global_dense_length c' \<noteq> None \<and> roberta_dense_length c' \<noteq> None"
  using assms
  by (auto simp add: update_config_def Let_def rbind_eq_Inr split: if_splits)

section \<open>The position of the bos token\<close>

text \<open>
  C9. Take an instance whose context size is \<open>max_prefix_length + 1\<close>, as both
  constructors set it, under a configuration in which \<open>max_prefix_length\<close> is 0 in
  no-SRL mode, as \<^verbatim>\<open>update_config\<close> leaves it. After \<^verbatim>\<open>preprocess\<close> the sentence is
  \<open>sent_prefix @ [bos] @ sent_suffix\<close> with a prefix of \<open>init_context_size - 1\<close>
  entries: the bos id stands at index \<open>init_context_size - 1 = max_prefix_length\<close>, and
  dropping the first \<open>init_context_size\<close> entries leaves exactly the suffix part.
\<close>

theorem sentence_bos_position:
  assumes "preprocess tok rnd inst = Inr (inst', rnd')"
    and "init_context_size inst = max_prefix_length (config inst) + 1"
    and "no_srl_input (args inst) \<longrightarrow> max_prefix_length (config inst) = 0"
  shows "\<exists>p s. sent_prefix inst' = Some p \<and> sent_suffix inst' = Some s
    \<and> sentence inst' = Some (p @ [bos_token_id tok] @ s)
    \<and> length p = init_context_size inst' - 1
    \<and> init_context_size inst' - 1 = max_prefix_length (config inst')
    \<and> (p @ [bos_token_id tok] @ s) ! (init_context_size inst' - 1) = bos_token_id tok
    \<and> take (init_context_size inst') (p @ [bos_token_id tok] @ s) = p @ [bos_token_id tok]
    \<and> drop (init_context_size inst') (p @ [bos_token_id tok] @ s) = s"
proof -
  from preprocess_sentence [OF assms(1)] obtain p s where
    ps: "sent_prefix inst' = Some p" "sent_suffix inst' = Some s"
      "sentence inst' = Some (p @ [bos_token_id tok] @ s)"
    and lp: "length p = (if no_srl_input (args inst) then 0 else max_prefix_length (config inst))"
    by blast
  from preprocess_fields [OF assms(1)] have
    f: "config inst' = config inst" "init_context_size inst' = init_context_size inst"
    by simp_all
  from lp assms(3) have lp': "length p = max_prefix_length (config inst)"
    by (simp split: if_splits)
  have ics: "init_context_size inst' = Suc (length p)"
    using assms(2) lp' by (simp add: f)
  show ?thesis
    using ps lp' by (simp add: ics f nth_append)
qed

text \<open>
  A no-SRL instance built by the constructor under an updated configuration: the prefix is
  empty, the context size is 1 and the bos id is the first entry of the sentence.
\<close>

theorem sentence_bos_position_witness:
  "preprocess
     \<lparr>pad_token_id = 0, bos_token_id = 1, eos_token_id = 2,
      additional_special_tokens_ids = [7, 8, 9],
      tokenize = (\<lambda>s. [s]), convert_token_to_id = (\<lambda>t. 5), decode = (\<lambda>ids. [])\<rparr>
     (sconst (9 / 10))
     \<lparr>args = \<lparr>context_input_type = ''x_no_srl_input'', global_dense_feature_list = ''none'',
              content_aggregation = 1000, upper_length = ''eos''\<rparr>,
      config = \<lparr>max_prefix_length = 0, max_suffix_length = 3, max_dense_length = 2,
              global_dense_length = Some 0, roberta_dense_length = Some 0\<rparr>,
      truncated = False, sent1_tokens = [21, 22], sent1_tokens_tags = None,
      sent2_tokens = [21, 22], init_context_size = 1,
      sent_prefix = None, sent_suffix = None, sentence = None,
      label_suffix = None, label = None, segment = None, gdv = None\<rparr>
   = Inr (\<lparr>args = \<lparr>context_input_type = ''x_no_srl_input'',
              global_dense_feature_list = ''none'',
              content_aggregation = 1000, upper_length = ''eos''\<rparr>,
      config = \<lparr>max_prefix_length = 0, max_suffix_length = 3, max_dense_length = 2,
              global_dense_length = Some 0, roberta_dense_length = Some 0\<rparr>,
      truncated = True, sent1_tokens = [], sent1_tokens_tags = None,
      sent2_tokens = [21, 22], init_context_size = 1,
      sent_prefix = Some [], sent_suffix = Some [21, 22, 2, 0],
      sentence = Some [1, 21, 22, 2, 0],
      label_suffix = Some [21, 22, 2, - 1],
      label = Some [- 1, 21, 22, 2, - 1],
      segment = Some [9, 9, 9, 9, 9], gdv = None\<rparr>, sconst (9 / 10))
   \<and> [1, 21, 22, 2, 0] ! (1 - 1) = (1 :: int) \<and> drop 1 [1, 21, 22, 2, 0 :: int] = [21, 22, 2, 0]"
  using sentence_bos_position [of
     "\<lparr>pad_token_id = 0, bos_token_id = 1, eos_token_id = 2,
      additional_special_tokens_ids = [7, 8, 9],
      tokenize = (\<lambda>s. [s]), convert_token_to_id = (\<lambda>t. 5), decode = (\<lambda>ids. [])\<rparr>"
     "sconst (9 / 10)"
     "\<lparr>args = \<lparr>context_input_type = ''x_no_srl_input'', global_dense_feature_list = ''none'',
              content_aggregation = 1000, upper_length = ''eos''\<rparr>,
      config = \<lparr>max_prefix_length = 0, max_suffix_length = 3, max_dense_length = 2,
              global_dense_length = Some 0, roberta_dense_length = Some 0\<rparr>,
      truncated = False, sent1_tokens = [21, 22], sent1_tokens_tags = None,
      sent2_tokens = [21, 22], init_context_size = 1,
      sent_prefix = None, sent_suffix = None, sentence = None,
      label_suffix = None, label = None, segment = None, gdv = None\<rparr>"]
  by (simp add: preprocess_def truncate_def shuffle_prefix_suffix_def build_sentence_def
      build_label_def build_segment_def check_constraints_def dense_length_def
      left_padding_def right_padding_def np_pad_def list_get_def repeat_id_def
      convert_tokens_to_ids_def no_srl_input_def endswith_def suffix_to_prefix Let_def
      numeral_2_eq_2)

section \<open>The secondary encoding\<close>

lemma roberta_ids_tensor: "roberta_ids (RobertaTensor t) = Inr (map astype_int32 t)"
  by (simp add: roberta_ids_def)

lemma py_int_error: "py_int s = Inl e \<Longrightarrow> e = ValueError"
  by (auto simp add: py_int_def Let_def split: option.splits)

lemma map_result_error:
  assumes "map_result f xs = Inl e"
  shows "\<exists>x \<in> set xs. f x = Inl e"
  using assms
  by (induction xs) (auto simp add: rbind_eq_Inl)

lemma map_result_length: "map_result f xs = Inr ys \<Longrightarrow> length ys = length xs"
  by (induction xs arbitrary: ys) (auto simp add: rbind_eq_Inr)

lemma roberta_ids_error:
  assumes "roberta_ids rs = Inl e"
  shows "e \<in> {ValueError, OverflowError, AttributeError}"
proof (cases rs)
  case (RobertaStr s)
  with assms have "map_result py_int (split_ws s) = Inl e
      \<or> (\<exists>xs. np_array_int32 xs = Inl e)"
    by (auto simp add: roberta_ids_def rbind_eq_Inl)
  then show ?thesis
  proof
    assume "map_result py_int (split_ws s) = Inl e"
    from map_result_error [OF this] show ?thesis
      by (auto dest: py_int_error)
  next
    assume "\<exists>xs. np_array_int32 xs = Inl e"
    then show ?thesis
      by (auto simp add: np_array_int32_def split: if_splits)
  qed
next
  case (RobertaTensor t)
  with assms show ?thesis by (simp add: roberta_ids_def)
next
  case (RobertaArray x)
  with assms show ?thesis by (simp add: roberta_ids_def)
qed

lemma right_padding_fits:
  "length d \<le> n \<Longrightarrow> right_padding d p n = Inr (d @ replicate (n - length d) p)"
  by (simp add: right_padding_eq_Inr)

lemma normalised_length:
  "length (if length ids < 502 then ids @ replicate (502 - length ids) (1 :: int)
           else take 502 ids) = 502"
  by simp

text \<open>
  C7. \<^verbatim>\<open>preprocess_roberta\<close> never fails its assertion. Whenever the input yields
  an id sequence (a string whose whitespace-separated fields are integers of the int32
  range, or a tensor, which always does), the result has exactly 502 entries: the ids
  right-padded with 1 when there are fewer than 502, their first 502 otherwise.
\<close>

theorem preprocess_roberta_length:
  "preprocess_roberta rs \<noteq> Inl AssertionError
   \<and> (\<forall>ids. roberta_ids rs = Inr ids \<longrightarrow>
        (\<exists>out. preprocess_roberta rs = Inr out \<and> length out = 502
           \<and> out = (if length ids < 502 then ids @ replicate (502 - length ids) 1
                    else take 502 ids)))
   \<and> (\<forall>t. rs = RobertaTensor t \<longrightarrow> roberta_ids rs = Inr (map astype_int32 t))"
proof (intro conjI allI impI)
  show "preprocess_roberta rs \<noteq> Inl AssertionError"
  proof (cases "roberta_ids rs")
    case (Inl e)
    from roberta_ids_error [OF this] have "e \<noteq> AssertionError"
      by auto
    with Inl show ?thesis
      by (simp add: preprocess_roberta_def)
  next
    case (Inr ids)
    then show ?thesis
      by (simp add: preprocess_roberta_def MAX_ROBERTA_LENGTH_def right_padding_fits)
  qed
next
  fix ids
  assume "roberta_ids rs = Inr ids"
  then show "\<exists>out. preprocess_roberta rs = Inr out \<and> length out = 502
           \<and> out = (if length ids < 502 then ids @ replicate (502 - length ids) 1
                    else take 502 ids)"
    by (simp add: preprocess_roberta_def MAX_ROBERTA_LENGTH_def right_padding_fits)
next
  fix t
  assume "rs = RobertaTensor t"
  then show "roberta_ids rs = Inr (map astype_int32 t)"
    by (simp add: roberta_ids_tensor)
qed

lemma roberta_ids_example: "roberta_ids (RobertaStr ''30 4'') = Inr [30, 4]"
  by (simp add: roberta_ids_def split_ws_def is_space_def py_int_def strip_def is_digit_def
      np_array_int32_def Let_def)

text \<open>
  Inputs of length 0, 2, 501, 502 and 600: the empty string, a string of two integers,
  and three tensors.
\<close>

theorem preprocess_roberta_length_witness:
  "preprocess_roberta (RobertaStr []) = Inr (replicate 502 1)
   \<and> preprocess_roberta (RobertaStr ''30 4'') = Inr ([30, 4] @ replicate 500 1)
   \<and> preprocess_roberta (RobertaTensor (replicate 501 5)) = Inr (replicate 501 5 @ [1])
   \<and> preprocess_roberta (RobertaTensor (replicate 502 5)) = Inr (replicate 502 5)
   \<and> preprocess_roberta (RobertaTensor (replicate 600 5)) = Inr (replicate 502 5)"
  using preprocess_roberta_length [of "RobertaStr []"]
    preprocess_roberta_length [of "RobertaStr ''30 4''"]
    preprocess_roberta_length [of "RobertaTensor (replicate 501 5)"]
    preprocess_roberta_length [of "RobertaTensor (replicate 502 5)"]
    preprocess_roberta_length [of "RobertaTensor (replicate 600 5)"]
  by (simp add: roberta_ids_example roberta_ids_tensor astype_int32_def)
     (simp add: roberta_ids_def split_ws_def np_array_int32_def)

section \<open>Instances of a batch and the random stream\<close>

lemma map_sum_rbind: "map_sum id g (rbind m f) = rbind m (\<lambda>v. map_sum id g (f v))"
  by (cases m) simp_all

lemma map_sum_fst_eq_Inl: "map_sum id fst m = Inl e \<longleftrightarrow> m = Inl e"
  by (cases m) auto

lemma map_sum_fst_eq_Inr: "map_sum id fst m = Inr x \<longleftrightarrow> (\<exists>y. m = Inr (x, y))"
  by (cases m) auto

lemma preprocess_depends_on_shuffle:
  assumes "fst (shuffle_prefix_suffix rnd1 (truncate inst))
    = fst (shuffle_prefix_suffix rnd2 (truncate inst))"
  shows "map_sum id fst (preprocess tok rnd1 inst) = map_sum id fst (preprocess tok rnd2 inst)"
  using assms by (simp add: preprocess_def case_prod_beta map_sum_rbind)

lemma shuffle_without_marker:
  assumes "\<not> str_in ''_shuffle_'' (context_input_type (args inst))"
  shows "fst (shuffle_prefix_suffix rnd1 inst) = fst (shuffle_prefix_suffix rnd2 inst)"
  using assms by (simp add: shuffle_prefix_suffix_def)

lemma swap_tokens_same:
  assumes "sent1_tokens inst = sent2_tokens inst"
  shows "swap_tokens inst = inst"
  using assms by (simp add: swap_tokens_def)

lemma shuffle_same_tokens:
  assumes "sent1_tokens inst = sent2_tokens inst"
  shows "fst (shuffle_prefix_suffix rnd inst) = inst"
  using assms by (simp add: shuffle_prefix_suffix_def swap_tokens_same)

lemma build_instances_independent:
  assumes "\<not> str_in ''_shuffle_'' (context_input_type a)
    \<or> (\<forall>ctx \<in> fst ` set pairs.
          take (max_prefix_length c) (encode tok ctx)
            = take (max_suffix_length c) (encode tok ctx))"
  shows "map_sum id fst (build_instances a c tok tables rnd1 pairs)
    = map_sum id fst (build_instances a c tok tables rnd2 pairs)"
  using assms
proof (induction pairs arbitrary: rnd1 rnd2)
  case Nil
  show ?case by simp
next
  case (Cons pair pairs)
  obtain ctx gdf where pair: "pair = (ctx, gdf)" by (cases pair)
  define ids where "ids = encode tok ctx"
  show ?case
  proof (cases "Instance_init a c ids ids")
    case (Inl e)
    then show ?thesis by (simp add: pair ids_def Let_def)
  next
    case (Inr inst)
    note init = Inr
    from Instance_init_Inr [OF Inr] have
      f: "args inst = a" "config inst = c" "sent1_tokens inst = ids" "sent2_tokens inst = ids"
      by simp_all
    have "fst (shuffle_prefix_suffix rnd1 (truncate inst))
        = fst (shuffle_prefix_suffix rnd2 (truncate inst))"
    proof (cases "str_in ''_shuffle_'' (context_input_type a)")
      case False
      then show ?thesis
        by (intro shuffle_without_marker) (simp add: f)
    next
      case True
      with Cons.prems have "take (max_prefix_length c) ids = take (max_suffix_length c) ids"
        by (simp add: ids_def pair)
      then have "sent1_tokens (truncate inst) = sent2_tokens (truncate inst)"
        by (simp add: f)
      then show ?thesis
        by (simp add: shuffle_same_tokens)
    qed
    from preprocess_depends_on_shuffle [OF this]
    have same: "map_sum id fst (preprocess tok rnd1 inst)
        = map_sum id fst (preprocess tok rnd2 inst)" .
    have rest: "map_sum id fst (build_instances a c tok tables r1 pairs)
        = map_sum id fst (build_instances a c tok tables r2 pairs)" for r1 r2
      using Cons.prems by (intro Cons.IH) auto
    show ?thesis
    proof (cases "preprocess tok rnd1 inst")
      case (Inl e)
      with same have "preprocess tok rnd2 inst = Inl e"
        by (simp add: map_sum_fst_eq_Inl [symmetric])
      with Inl init show ?thesis
        by (simp add: pair ids_def [symmetric] Let_def)
    next
      case (Inr res)
      obtain inst' r1 where res: "res = (inst', r1)" by (cases res)
      with Inr same obtain r2 where r2: "preprocess tok rnd2 inst = Inr (inst', r2)"
        by (metis map_sum_fst_eq_Inr)
      from rest [of r1 r2] show ?thesis
        using init Inr res r2
        by (cases "dense_vectors a tables gdf";
            cases "build_instances a c tok tables r1 pairs";
            cases "build_instances a c tok tables r2 pairs")
           (auto simp add: pair ids_def [symmetric] Let_def)
    qed
  qed
qed

text \<open>
  C10, as the code has it. \<^verbatim>\<open>generate_batch\<close> builds every instance with both
  token arrays equal to the ids of the context. Truncation comes before the swap and cuts
  the two arrays to different limits: the swap is an identity for a context whose first
  \<open>max_prefix_length\<close> ids are its first \<open>max_suffix_length\<close> ids. When that holds for
  every context, or the mode has no \<^verbatim>\<open>_shuffle_\<close> marker, the instances that
  \<^verbatim>\<open>generate_batch\<close> builds (or the error raised while building them) do not depend on
  the random stream.
\<close>

theorem generate_batch_random_independent:
  assumes "\<not> str_in ''_shuffle_'' (context_input_type a)
    \<or> (\<forall>ctx \<in> set contexts.
          take (max_prefix_length c) (encode tok ctx)
            = take (max_suffix_length c) (encode tok ctx))"
  shows "map_sum id fst (build_instances a c tok tables rnd1 (zip_selectors contexts gdfs))
      = map_sum id fst (build_instances a c tok tables rnd2 (zip_selectors contexts gdfs))
    \<and> (\<forall>ctx inst rnd. Instance_init a c (encode tok ctx) (encode tok ctx) = Inr inst \<longrightarrow>
          sent1_tokens inst = encode tok ctx \<and> sent2_tokens inst = encode tok ctx
          \<and> (take (max_prefix_length c) (encode tok ctx)
                = take (max_suffix_length c) (encode tok ctx) \<longrightarrow>
              fst (shuffle_prefix_suffix rnd (truncate inst)) = truncate inst))"
proof (intro conjI allI impI)
  have "fst ` set (zip_selectors contexts gdfs) \<subseteq> set contexts"
    by (auto simp add: zip_selectors_def dest: set_zip_leftD)
  with assms have "\<not> str_in ''_shuffle_'' (context_input_type a)
    \<or> (\<forall>ctx \<in> fst ` set (zip_selectors contexts gdfs).
          take (max_prefix_length c) (encode tok ctx)
            = take (max_suffix_length c) (encode tok ctx))"
    by blast
  then show "map_sum id fst (build_instances a c tok tables rnd1 (zip_selectors contexts gdfs))
      = map_sum id fst (build_instances a c tok tables rnd2 (zip_selectors contexts gdfs))"
    by (rule build_instances_independent)
next
  fix ctx inst rnd
  assume "Instance_init a c (encode tok ctx) (encode tok ctx) = Inr inst"
  from Instance_init_Inr [OF this]
  show "sent1_tokens inst = encode tok ctx" and "sent2_tokens inst = encode tok ctx"
    by simp_all
next
  fix ctx inst rnd
  assume init: "Instance_init a c (encode tok ctx) (encode tok ctx) = Inr inst"
    and same: "take (max_prefix_length c) (encode tok ctx)
                = take (max_suffix_length c) (encode tok ctx)"
  from Instance_init_Inr [OF init] same
  have "sent1_tokens (truncate inst) = sent2_tokens (truncate inst)"
    by simp
  then show "fst (shuffle_prefix_suffix rnd (truncate inst)) = truncate inst"
    by (rule shuffle_same_tokens)
qed

text \<open>
  Equal limits in shuffle mode: a draw below one half and a draw above build the same
  instances.
\<close>

theorem generate_batch_random_independent_witness:
  "map_sum id fst (build_instances
     \<lparr>context_input_type = ''srl_shuffle_input'', global_dense_feature_list = ''none'',
      content_aggregation = 1000, upper_length = ''eos''\<rparr>
     \<lparr>max_prefix_length = 3, max_suffix_length = 3, max_dense_length = 2,
      global_dense_length = Some 0, roberta_dense_length = Some 0\<rparr>
     \<lparr>pad_token_id = 0, bos_token_id = 1, eos_token_id = 2,
      additional_special_tokens_ids = [7, 8, 9],
      tokenize = (\<lambda>s. [s, s]), convert_token_to_id = (\<lambda>t. 5), decode = (\<lambda>ids. [])\<rparr>
     None (sconst (1 / 10)) (zip_selectors [''hi''] None))
   = map_sum id fst (build_instances
     \<lparr>context_input_type = ''srl_shuffle_input'', global_dense_feature_list = ''none'',
      content_aggregation = 1000, upper_length = ''eos''\<rparr>
     \<lparr>max_prefix_length = 3, max_suffix_length = 3, max_dense_length = 2,
      global_dense_length = Some 0, roberta_dense_length = Some 0\<rparr>
     \<lparr>pad_token_id = 0, bos_token_id = 1, eos_token_id = 2,
      additional_special_tokens_ids = [7, 8, 9],
      tokenize = (\<lambda>s. [s, s]), convert_token_to_id = (\<lambda>t. 5), decode = (\<lambda>ids. [])\<rparr>
     None (sconst (9 / 10)) (zip_selectors [''hi''] None))"
  using generate_batch_random_independent [where
     a = "\<lparr>context_input_type = ''srl_shuffle_input'', global_dense_feature_list = ''none'',
      content_aggregation = 1000, upper_length = ''eos''\<rparr>"
     and c = "\<lparr>max_prefix_length = 3, max_suffix_length = 3, max_dense_length = 2,
      global_dense_length = Some 0, roberta_dense_length = Some 0\<rparr>"
     and tok = "\<lparr>pad_token_id = 0, bos_token_id = 1, eos_token_id = 2,
      additional_special_tokens_ids = [7, 8, 9],
      tokenize = (\<lambda>s. [s, s]), convert_token_to_id = (\<lambda>t. 5), decode = (\<lambda>ids. [])\<rparr>"
     and tables = None and gdfs = None
     and contexts = "[''hi'']" and ?rnd1.0 = "sconst (1 / 10)" and ?rnd2.0 = "sconst (9 / 10)",
     THEN conjunct1]
  by simp

text \<open>
  A shuffle mode without prefix, the suffix limit at 3 and a context of two ids: after
  truncation the prefix array is empty and the suffix array holds the context. A draw below
  one half swaps them, a draw above does not, and the two sentences differ.
\<close>

theorem generate_batch_shuffle_counterexample:
  "map_sum id (\<lambda>r. map (\<lambda>inst. (sent1_tokens inst, sentence inst)) (fst r))
     (build_instances
       \<lparr>context_input_type = ''x_shuffle_no_srl_input'', global_dense_feature_list = ''none'',
        content_aggregation = 1000, upper_length = ''eos''\<rparr>
       \<lparr>max_prefix_length = 0, max_suffix_length = 3, max_dense_length = 2,
        global_dense_length = Some 0, roberta_dense_length = Some 0\<rparr>
       \<lparr>pad_token_id = 0, bos_token_id = 1, eos_token_id = 2,
        additional_special_tokens_ids = [7, 8, 9],
        tokenize = (\<lambda>s. [s, s]), convert_token_to_id = (\<lambda>t. 5), decode = (\<lambda>ids. [])\<rparr>
       None (sconst (1 / 10)) (zip_selectors [''hi''] None))
     = Inr [([5, 5], Some [1, 2, 0, 0, 0])]
   \<and> map_sum id (\<lambda>r. map (\<lambda>inst. (sent1_tokens inst, sentence inst)) (fst r))
     (build_instances
       \<lparr>context_input_type = ''x_shuffle_no_srl_input'', global_dense_feature_list = ''none'',
        content_aggregation = 1000, upper_length = ''eos''\<rparr>
       \<lparr>max_prefix_length = 0, max_suffix_length = 3, max_dense_length = 2,
        global_dense_length = Some 0, roberta_dense_length = Some 0\<rparr>
       \<lparr>pad_token_id = 0, bos_token_id = 1, eos_token_id = 2,
        additional_special_tokens_ids = [7, 8, 9],
        tokenize = (\<lambda>s. [s, s]), convert_token_to_id = (\<lambda>t. 5), decode = (\<lambda>ids. [])\<rparr>
       None (sconst (9 / 10)) (zip_selectors [''hi''] None))
     = Inr [([], Some [1, 5, 5, 2, 0])]"
  by (simp add: zip_selectors_def dense_vectors_def
      encode_def Instance_init_def np_array_int32_def swap_tokens_def
      preprocess_def truncate_def shuffle_prefix_suffix_def build_sentence_def
      build_label_def build_segment_def check_constraints_def dense_length_def
      left_padding_def right_padding_def np_pad_def list_get_def repeat_id_def
      convert_tokens_to_ids_def no_srl_input_def endswith_def suffix_to_prefix Let_def
      numeral_2_eq_2 numeral_3_eq_3)

section \<open>The dense-vector step\<close>

lemma dense_vectors_no_selector: "dense_vectors a tables None = Inr [replicate 768 0]"
  by (simp add: dense_vectors_def)

lemma dense_vectors_no_feature_list:
  "global_dense_feature_list a = ''none'' \<Longrightarrow> dense_vectors a tables gdf = Inr [replicate 768 0]"
  by (simp add: dense_vectors_def split: option.splits)

lemma dense_vectors_absent_tables:
  "global_dense_feature_list a \<noteq> ''none'' \<Longrightarrow> dense_vectors a None (Some g) = Inl AttributeError"
  by (simp add: dense_vectors_def attr_def)

lemma dense_vectors_missing_author:
  assumes "global_dense_feature_list a \<noteq> ''none''" and "snd t k = None"
  shows "dense_vectors a (Some (t # ts)) (Some (Author k)) = Inl KeyError"
  using assms by (simp add: dense_vectors_def table_lookup_def)

lemma dense_vectors_bucket_out_of_range:
  assumes "global_dense_feature_list a \<noteq> ''none''" and "d ''f1_bucket'' = Some i"
    and "20 \<le> i"
  shows "dense_vectors a (Some []) (Some (Buckets d)) = Inl IndexError"
  using assms by (simp add: dense_vectors_def selector_field_def set_one_def)

section \<open>Post-processing of the output rows\<close>









end
